theory Spec2Isabelle
  imports Complex_Main "HOL-Library.Char_ord" "HOL-Library.List_Lexorder"
    "HOL-Library.Product_Lexorder"
begin

section \<open>Sales dashboard: warehouse tables and the connection\<close>

text \<open>
  The script \<^verbatim>\<open>dashboard.py\<close> reads two warehouse tables through SQL and reshapes
  the answers with pandas. The tables are lists of rows; every column is nullable
  (\<open>None\<close> is SQL \<open>NULL\<close>), since the script declares no schema and tests columns with
  \<^verbatim>\<open>IS NOT NULL\<close> itself. Numeric columns and every number computed from them are
  exact rationals: the rounding of \<^verbatim>\<open>DOUBLE\<close> arithmetic is not part of the model.
  The catalog column \<^verbatim>\<open>id\<close> is the field \<open>p_id\<close>.
\<close>

record sql_timestamp =
  ts_year :: nat
  ts_month :: nat
  ts_day :: nat
  ts_seconds :: nat

record sale_item =
  descricaoProduto :: "string option"
  qtde :: "rat option"
  valor :: "rat option"
  vendaId :: "int option"
  un :: "string option"
  data :: "sql_timestamp option"

record catalog_item =
  p_id :: "int option"
  descricao :: "string option"
  estoque :: "rat option"
  grupo :: "string option"
  codigo_fab :: "string option"

text \<open>
  The warehouse also brings its own \<^verbatim>\<open>LOWER\<close>: the case folding of its character
  set, which the script does not define. It is the field \<open>sql_lower\<close>, and nothing is
  assumed about it.
\<close>

record warehouse =
  itens_venda_mm :: "sale_item list"
  produtos_mm :: "catalog_item list"
  sql_lower :: "string \<Rightarrow> string"

text \<open>
  A connection that was opened can still fail when a query runs (a transient warehouse
  error, a closed session): \<open>query_fault\<close> holds the exception \<^verbatim>\<open>pd.read_sql\<close>
  raises then. \<^verbatim>\<open>get_databricks_connection\<close> returns \<^verbatim>\<open>None\<close> when connecting
  failed, so the functions below take a \<open>connection option\<close>.
\<close>

record connection =
  tables :: warehouse
  query_fault :: "string option"

definition read_sql :: "(warehouse \<Rightarrow> string + 'a) \<Rightarrow> connection \<Rightarrow> string + 'a" where
  "read_sql query c = (case query_fault c of Some e \<Rightarrow> Inl e | None \<Rightarrow> query (tables c))"

section \<open>SQL scalar functions and the shared filter\<close>

text \<open>\<^verbatim>\<open>TRIM\<close> removes the space characters at both ends of a string.\<close>

definition sql_trim :: "string \<Rightarrow> string" where
  "sql_trim s =
     rev (dropWhile (\<lambda>c. c = CHR '' '') (rev (dropWhile (\<lambda>c. c = CHR '' '') s)))"

text \<open>
  The filter shared by the product count and the ranking:
  \<^verbatim>\<open>descricaoProduto IS NOT NULL AND LENGTH(TRIM(descricaoProduto)) > 0 AND qtde > 0\<close>.
  A \<open>NULL\<close> quantity makes the comparison unknown, which rejects the row.
\<close>

definition where_sold :: "sale_item \<Rightarrow> bool" where
  "where_sold r =
     (case descricaoProduto r of
        None \<Rightarrow> False
      | Some d \<Rightarrow>
          0 < length (sql_trim d) \<and> (case qtde r of None \<Rightarrow> False | Some q \<Rightarrow> 0 < q))"

section \<open>\<^verbatim>\<open>get_total_products\<close>\<close>

text \<open>
  \<^verbatim>\<open>SELECT COUNT(DISTINCT TRIM(descricaoProduto)) ...\<close>: a frame of one row and one
  column. The products of the filtered rows are never \<open>NULL\<close>.
\<close>

definition trimmed_product :: "sale_item \<Rightarrow> string" where
  "trimmed_product r = (case descricaoProduto r of None \<Rightarrow> [] | Some d \<Rightarrow> sql_trim d)"

definition total_products_query :: "warehouse \<Rightarrow> string + nat list" where
  "total_products_query w =
     Inr [length (remdups (map trimmed_product (filter where_sold (itens_venda_mm w))))]"

text \<open>The body of the \<^verbatim>\<open>try\<close> block: \<open>Inl\<close> is an exception raised inside it.\<close>

definition get_total_products_try :: "connection \<Rightarrow> string + int" where
  "get_total_products_try c =
     (case read_sql total_products_query c of
        Inl e \<Rightarrow> Inl e
      | Inr df \<Rightarrow> (case df of [] \<Rightarrow> Inr 10 | total_produtos # _ \<Rightarrow> Inr (int total_produtos)))"

text \<open>
  The whole function: no connection gives 10, and the \<^verbatim>\<open>except Exception\<close> handler
  turns every exception of the body into 10.
\<close>

definition get_total_products :: "connection option \<Rightarrow> string + int" where
  "get_total_products conn =
     (case conn of
        None \<Rightarrow> Inr 10
      | Some c \<Rightarrow> (case get_total_products_try c of Inl e \<Rightarrow> Inr 10 | Inr n \<Rightarrow> Inr n))"

section \<open>SQL aggregates, grouping and ordering\<close>

text \<open>Aggregates skip \<open>NULL\<close>; \<^verbatim>\<open>SUM\<close> and \<^verbatim>\<open>AVG\<close> of no value are \<open>NULL\<close>.\<close>

fun non_null :: "'a option list \<Rightarrow> 'a list" where
  "non_null [] = []"
| "non_null (None # vs) = non_null vs"
| "non_null (Some v # vs) = v # non_null vs"

definition sql_sum :: "rat option list \<Rightarrow> rat option" where
  "sql_sum vs = (case non_null vs of [] \<Rightarrow> None | x # xs \<Rightarrow> Some (sum_list (x # xs)))"

definition sql_avg :: "rat option list \<Rightarrow> rat option" where
  "sql_avg vs =
     (case non_null vs of
        [] \<Rightarrow> None
      | x # xs \<Rightarrow> Some (sum_list (x # xs) / of_nat (length (x # xs))))"

definition count_distinct :: "'a option list \<Rightarrow> nat" where
  "count_distinct vs = length (remdups (non_null vs))"

text \<open>
  Division gives \<open>NULL\<close> when an operand is \<open>NULL\<close>. A zero divisor also gives
  \<open>NULL\<close>; every division of the script is guarded against it.
\<close>

definition sql_div :: "rat option \<Rightarrow> rat option \<Rightarrow> rat option" where
  "sql_div a b =
     (case a of
        None \<Rightarrow> None
      | Some x \<Rightarrow> (case b of None \<Rightarrow> None | Some y \<Rightarrow> if y = 0 then None else Some (x / y)))"

text \<open>
  \<^verbatim>\<open>GROUP BY\<close>: one group per distinct key, with the rows of that key. SQL leaves
  the order of the groups open; here it is the order of \<open>remdups\<close>.
\<close>

definition group_by :: "('r \<Rightarrow> 'k) \<Rightarrow> 'r list \<Rightarrow> ('k \<times> 'r list) list" where
  "group_by key rows =
     map (\<lambda>k. (k, filter (\<lambda>r. key r = k) rows)) (remdups (map key rows))"

text \<open>
  \<^verbatim>\<open>ORDER BY col DESC\<close>: larger values first, \<open>NULL\<close> last. Rows with equal values
  keep their order (SQL leaves ties open).
\<close>

definition desc_nulls_last :: "rat option \<Rightarrow> nat \<times> rat" where
  "desc_nulls_last v = (case v of None \<Rightarrow> (1, 0) | Some x \<Rightarrow> (0, - x))"

definition order_by_desc :: "('r \<Rightarrow> rat option) \<Rightarrow> 'r list \<Rightarrow> 'r list" where
  "order_by_desc col rows = sort_key (\<lambda>r. desc_nulls_last (col r)) rows"

text \<open>\<^verbatim>\<open>LIMIT n\<close> with the Python integer put into the query text: a negative
  limit is rejected by the warehouse.\<close>

definition sql_limit :: "int \<Rightarrow> 'r list \<Rightarrow> string + 'r list" where
  "sql_limit n rows = (if n < 0 then Inl ''negative LIMIT'' else Inr (take (nat n) rows))"

section \<open>\<^verbatim>\<open>get_top_products\<close>\<close>

record top_row =
  produto :: "string option"
  quantidade_total :: "rat option"
  num_vendas :: nat
  valor_total :: "rat option"
  unidade :: "string option"

text \<open>One output row of the ranking query, for the group of a trimmed product name.\<close>

definition top_row_of :: "string \<times> sale_item list \<Rightarrow> top_row" where
  "top_row_of g =
     \<lparr>produto = Some (fst g),
      quantidade_total = sql_sum (map qtde (snd g)),
      num_vendas = count_distinct (map vendaId (snd g)),
      valor_total = sql_sum (map valor (snd g)),
      unidade = (case snd g of [] \<Rightarrow> None | r # _ \<Rightarrow> un r)\<rparr>"

definition ranking :: "warehouse \<Rightarrow> top_row list" where
  "ranking w =
     order_by_desc quantidade_total
       (map top_row_of (group_by trimmed_product (filter where_sold (itens_venda_mm w))))"

definition top_products_query :: "int \<Rightarrow> warehouse \<Rightarrow> string + top_row list" where
  "top_products_query limit w = sql_limit limit (ranking w)"

text \<open>
  \<^verbatim>\<open>pd.to_numeric(..., errors='coerce')\<close> on a \<^verbatim>\<open>DOUBLE\<close> column: a number stays,
  a missing value stays missing (NaN).
\<close>

definition to_numeric_coerce :: "rat option \<Rightarrow> rat option" where
  "to_numeric_coerce v = (case v of None \<Rightarrow> None | Some x \<Rightarrow> Some x)"

text \<open>\<^verbatim>\<open>df.dropna(subset=['produto', 'quantidade_total'])\<close>\<close>

definition dropna_produto_quantidade :: "'a top_row_scheme list \<Rightarrow> 'a top_row_scheme list" where
  "dropna_produto_quantidade df =
     filter (\<lambda>r. produto r \<noteq> None \<and> quantidade_total r \<noteq> None) df"

definition get_top_products_try :: "int \<Rightarrow> connection \<Rightarrow> string + top_row list" where
  "get_top_products_try limit c =
     (case read_sql (top_products_query limit) c of
        Inl e \<Rightarrow> Inl e
      | Inr df \<Rightarrow>
          if df \<noteq> [] then
            Inr (dropna_produto_quantidade
                  (map (\<lambda>r. r\<lparr>quantidade_total := to_numeric_coerce (quantidade_total r),
                               valor_total := to_numeric_coerce (valor_total r)\<rparr>) df))
          else Inr df)"

definition get_top_products :: "int \<Rightarrow> connection option \<Rightarrow> top_row list" where
  "get_top_products limit conn =
     (case conn of
        None \<Rightarrow> []
      | Some c \<Rightarrow> (case get_top_products_try limit c of Inl e \<Rightarrow> [] | Inr df \<Rightarrow> df))"

section \<open>The currency text of the ranking tab\<close>

text \<open>Decimal digits of a natural number, as \<^verbatim>\<open>str\<close> prints them.\<close>

definition digit_char :: "nat \<Rightarrow> char" where
  "digit_char d = ''0123456789'' ! (d mod 10)"

function decimal :: "nat \<Rightarrow> string" where
  "decimal n =
     (if n < 10 then [digit_char n] else decimal (n div 10) @ [digit_char (n mod 10)])"
  by pat_completeness auto
termination
  by (relation "measure (\<lambda>n. n)") auto

declare decimal.simps [simp del]

text \<open>A separator after every third digit, counted from the right.\<close>

fun group3_rev :: "char \<Rightarrow> string \<Rightarrow> string" where
  "group3_rev sep (a # b # c # d # ds) = a # b # c # sep # group3_rev sep (d # ds)"
| "group3_rev sep ds = ds"

definition thousands :: "char \<Rightarrow> string \<Rightarrow> string" where
  "thousands sep ds = rev (group3_rev sep (rev ds))"

text \<open>
  The format \<^verbatim>\<open>{v:,.2f}\<close>: the value is rounded to hundredths, a tie going to the
  even neighbour; a negative value keeps its sign also when it rounds to zero.
\<close>

definition round_half_even :: "rat \<Rightarrow> int" where
  "round_half_even x =
     (let f = \<lfloor>x\<rfloor>; d = x - of_int f
      in if d < 1 / 2 then f else if 1 / 2 < d then f + 1 else if even f then f else f + 1)"

definition format_comma_2f :: "rat \<Rightarrow> string" where
  "format_comma_2f v =
     (let cents = nat (round_half_even (\<bar>v\<bar> * 100))
      in (if v < 0 then ''-'' else '''')
         @ thousands (CHR '','') (decimal (cents div 100))
         @ ''.'' @ [digit_char (cents mod 100 div 10), digit_char (cents mod 10)])"

text \<open>\<^verbatim>\<open>str.replace\<close> of one character by another.\<close>

definition replace_char :: "char \<Rightarrow> char \<Rightarrow> string \<Rightarrow> string" where
  "replace_char old new s = map (\<lambda>c. if c = old then new else c) s"

text \<open>
  \<^verbatim>\<open>lambda v: f"R$ {v:,.2f}".replace(",", "X").replace(".", ",").replace("X", ".")
  if pd.notnull(v) else "-"\<close>
\<close>

definition valor_total_formatado_of :: "rat option \<Rightarrow> string" where
  "valor_total_formatado_of v =
     (case v of
        None \<Rightarrow> ''-''
      | Some x \<Rightarrow>
          replace_char (CHR ''X'') (CHR ''.'')
            (replace_char (CHR ''.'') (CHR '','')
               (replace_char (CHR '','') (CHR ''X'') (''R$ '' @ format_comma_2f x))))"

text \<open>The three replacements in one pass over the characters.\<close>

definition swap_separators :: "char \<Rightarrow> char" where
  "swap_separators =
     (\<lambda>c. if c = CHR ''X'' then CHR ''.'' else c)
       \<circ> (\<lambda>c. if c = CHR ''.'' then CHR '','' else c)
       \<circ> (\<lambda>c. if c = CHR '','' then CHR ''X'' else c)"

text \<open>
  The same text written from the specification: prefix \<^verbatim>\<open>R$\<close>, a dot between
  the thousands, a decimal comma and two decimals; a dash for a missing value.
\<close>

definition currency_spec :: "rat option \<Rightarrow> string" where
  "currency_spec v =
     (case v of
        None \<Rightarrow> ''-''
      | Some x \<Rightarrow>
          (let cents = nat (round_half_even (\<bar>x\<bar> * 100))
           in ''R$ '' @ (if x < 0 then ''-'' else '''')
              @ thousands (CHR ''.'') (decimal (cents div 100))
              @ '','' @ [digit_char (cents mod 100 div 10), digit_char (cents mod 10)]))"

text \<open>
  The cleaning of the ranking tab: \<^verbatim>\<open>dropna\<close> on product and quantity, the
  quantity coerced again and the rows without it dropped, then the currency column. The
  three optional columns always come with the query, and \<^verbatim>\<open>astype(str)\<close> on the
  product and \<^verbatim>\<open>astype(float)\<close> on the quantity change no value.
\<close>

record clean_row = top_row +
  valor_total_formatado :: string

definition top_part :: "clean_row \<Rightarrow> top_row" where
  "top_part r =
     \<lparr>produto = produto r, quantidade_total = quantidade_total r, num_vendas = num_vendas r,
      valor_total = valor_total r, unidade = unidade r\<rparr>"

definition produtos_top_clean :: "top_row list \<Rightarrow> clean_row list" where
  "produtos_top_clean produtos_top =
     map (\<lambda>r. top_row.extend r
                 (clean_row.fields (valor_total_formatado_of (valor_total r))))
       (filter (\<lambda>r. quantidade_total r \<noteq> None)
          (map (\<lambda>r. r\<lparr>quantidade_total := to_numeric_coerce (quantidade_total r)\<rparr>)
             (dropna_produto_quantidade produtos_top)))"

section \<open>\<^verbatim>\<open>analyze_stock\<close>\<close>

text \<open>
  The first table expression, \<^verbatim>\<open>vendas_resumo\<close>: the sale lines with a product and a
  date, grouped by the product name as it is stored (not trimmed).
\<close>

definition product_name :: "sale_item \<Rightarrow> string" where
  "product_name r = (case descricaoProduto r of None \<Rightarrow> [] | Some d \<Rightarrow> d)"

definition where_dated :: "sale_item \<Rightarrow> bool" where
  "where_dated r = (descricaoProduto r \<noteq> None \<and> data r \<noteq> None)"

definition sql_date :: "sql_timestamp \<Rightarrow> nat \<times> nat \<times> nat" where
  "sql_date t = (ts_year t, ts_month t, ts_day t)"

record vendas_resumo_row =
  v_descricaoProduto :: string
  v_total_vendido :: "rat option"
  v_media_venda :: "rat option"
  v_dias_com_venda :: nat
  v_num_vendas :: nat

definition vendas_resumo_of :: "string \<times> sale_item list \<Rightarrow> vendas_resumo_row" where
  "vendas_resumo_of g =
     \<lparr>v_descricaoProduto = fst g,
      v_total_vendido = sql_sum (map qtde (snd g)),
      v_media_venda = sql_avg (map qtde (snd g)),
      v_dias_com_venda = count_distinct (map (\<lambda>r. map_option sql_date (data r)) (snd g)),
      v_num_vendas = count_distinct (map vendaId (snd g))\<rparr>"

definition vendas_resumo :: "int \<Rightarrow> warehouse \<Rightarrow> string + vendas_resumo_row list" where
  "vendas_resumo n w =
     sql_limit n
       (order_by_desc v_total_vendido
          (map vendas_resumo_of (group_by product_name (filter where_dated (itens_venda_mm w)))))"

text \<open>
  The second table expression adds \<^verbatim>\<open>media_venda_dia\<close>:
  \<^verbatim>\<open>CASE WHEN dias_com_venda > 0 THEN total_vendido / dias_com_venda
  ELSE total_vendido / 30.0 END\<close>.
\<close>

definition media_venda_dia_of :: "rat option \<Rightarrow> nat \<Rightarrow> rat option" where
  "media_venda_dia_of total_vendido dias_com_venda =
     (if 0 < dias_com_venda then sql_div total_vendido (Some (of_nat dias_com_venda))
      else sql_div total_vendido (Some 30))"

record vendas_media_row = vendas_resumo_row +
  v_media_venda_dia :: "rat option"

definition with_media :: "vendas_resumo_row \<Rightarrow> vendas_media_row" where
  "with_media v =
     vendas_resumo_row.extend v
       (vendas_media_row.fields (media_venda_dia_of (v_total_vendido v) (v_dias_com_venda v)))"

definition vendas_com_media_dia :: "vendas_resumo_row list \<Rightarrow> vendas_media_row list" where
  "vendas_com_media_dia vs = map with_media vs"

text \<open>
  The distinct sale days of a product as the specification words them: the set of the
  calendar days on which the product has a sale line, and its size.
\<close>

definition sale_days :: "string \<Rightarrow> warehouse \<Rightarrow> (nat \<times> nat \<times> nat) set" where
  "sale_days name w =
     set (concat
            (map (\<lambda>r. case data r of
                         None \<Rightarrow> []
                       | Some t \<Rightarrow>
                           if descricaoProduto r = Some name
                           then [(ts_year t, ts_month t, ts_day t)] else [])
               (itens_venda_mm w)))"

definition distinct_sale_days :: "string \<Rightarrow> warehouse \<Rightarrow> nat" where
  "distinct_sale_days name w = card (sale_days name w)"

text \<open>
  The join condition \<^verbatim>\<open>LOWER(TRIM(v.descricaoProduto)) = LOWER(TRIM(p.descricao))\<close>,
  with the warehouse's \<^verbatim>\<open>LOWER\<close>; a \<open>NULL\<close> catalog description matches nothing.
\<close>

definition join_on :: "(string \<Rightarrow> string) \<Rightarrow> string \<Rightarrow> catalog_item \<Rightarrow> bool" where
  "join_on lower produto_vendido p =
     (case descricao p of
        None \<Rightarrow> False
      | Some d \<Rightarrow> lower (sql_trim produto_vendido) = lower (sql_trim d))"

text \<open>
  \<^verbatim>\<open>LEFT JOIN\<close>: every left row with each catalog row it matches, or once with no
  catalog row (all of \<^verbatim>\<open>p\<close>'s columns \<open>NULL\<close>) when it matches none.
\<close>

definition left_join ::
  "(string \<Rightarrow> string) \<Rightarrow> vendas_media_row list \<Rightarrow> catalog_item list
     \<Rightarrow> (vendas_media_row \<times> catalog_item option) list"
where
  "left_join lower vs ps =
     concat (map (\<lambda>v. case filter (join_on lower (v_descricaoProduto v)) ps of
                         [] \<Rightarrow> [(v, None)]
                       | m # ms \<Rightarrow> map (\<lambda>p. (v, Some p)) (m # ms)) vs)"

text \<open>A comparison with \<open>NULL\<close> is unknown, which a \<^verbatim>\<open>CASE WHEN\<close> does not take.\<close>

definition sql_positive :: "rat option \<Rightarrow> bool" where
  "sql_positive v = (case v of None \<Rightarrow> False | Some x \<Rightarrow> 0 < x)"

record stock_row =
  produto_e :: string
  total_vendido :: "rat option"
  media_venda :: "rat option"
  media_venda_dia :: "rat option"
  num_vendas_e :: nat
  status_estoque :: string
  descricao_cadastro :: "string option"
  quantidade_estoque :: "rat option"
  grupo_e :: "string option"
  codigo_fab_e :: "string option"
  dias_estoque :: "rat option"

text \<open>The final \<^verbatim>\<open>SELECT\<close> list, for a left row and the catalog row joined to it.\<close>

definition stock_select :: "vendas_media_row \<Rightarrow> catalog_item option \<Rightarrow> stock_row" where
  "stock_select v p =
     \<lparr>produto_e = v_descricaoProduto v,
      total_vendido = v_total_vendido v,
      media_venda = v_media_venda v,
      media_venda_dia = v_media_venda_dia v,
      num_vendas_e = v_num_vendas v,
      status_estoque =
        (if Option.bind p p_id \<noteq> None then ''Em Estoque'' else ''Sem Estoque''),
      descricao_cadastro = Option.bind p descricao,
      quantidade_estoque = Option.bind p estoque,
      grupo_e = Option.bind p grupo,
      codigo_fab_e = Option.bind p codigo_fab,
      dias_estoque =
        (if Option.bind p p_id \<noteq> None \<and> Option.bind p estoque \<noteq> None
            \<and> sql_positive (v_media_venda_dia v)
         then sql_div (Option.bind p estoque) (v_media_venda_dia v)
         else None)\<rparr>"

definition stock_query :: "int \<Rightarrow> warehouse \<Rightarrow> string + stock_row list" where
  "stock_query n w =
     (case vendas_resumo n w of
        Inl e \<Rightarrow> Inl e
      | Inr vs \<Rightarrow>
          Inr (order_by_desc total_vendido
                 (map (\<lambda>(v, p). stock_select v p)
                    (left_join (sql_lower w) (vendas_com_media_dia vs) (produtos_mm w)))))"

definition analyze_stock :: "int \<Rightarrow> connection option \<Rightarrow> stock_row list" where
  "analyze_stock n conn =
     (case conn of
        None \<Rightarrow> []
      | Some c \<Rightarrow> (case read_sql (stock_query n) c of Inl e \<Rightarrow> [] | Inr df \<Rightarrow> df))"

section \<open>\<^verbatim>\<open>get_seasonality_data\<close>\<close>

record season_row =
  produto_s :: string
  mes :: string
  quantidade :: "rat option"

definition where_named :: "sale_item \<Rightarrow> bool" where
  "where_named r = (descricaoProduto r \<noteq> None)"

text \<open>The sub-ranking \<^verbatim>\<open>top_produtos\<close> of the first query, by summed quantity.\<close>

definition top_produtos_by_sum :: "int \<Rightarrow> warehouse \<Rightarrow> string + string list" where
  "top_produtos_by_sum n w =
     sql_limit n
       (map fst
          (order_by_desc (\<lambda>g. sql_sum (map qtde (snd g)))
             (group_by product_name (filter where_named (itens_venda_mm w)))))"

text \<open>\<^verbatim>\<open>DATE_FORMAT(data, 'yyyy-MM')\<close>\<close>

definition pad2 :: "nat \<Rightarrow> string" where
  "pad2 n = (if n < 10 then CHR ''0'' # decimal n else decimal n)"

definition date_format_yyyy_MM :: "sql_timestamp \<Rightarrow> string" where
  "date_format_yyyy_MM t =
     replicate (4 - length (decimal (ts_year t))) (CHR ''0'') @ decimal (ts_year t)
     @ ''-'' @ pad2 (ts_month t)"

definition month_key :: "sale_item \<Rightarrow> string" where
  "month_key r = (case data r of None \<Rightarrow> [] | Some t \<Rightarrow> date_format_yyyy_MM t)"

definition season_row_of :: "(string \<times> string) \<times> sale_item list \<Rightarrow> season_row" where
  "season_row_of g =
     \<lparr>produto_s = fst (fst g), mes = snd (fst g), quantidade = sql_sum (map qtde (snd g))\<rparr>"

definition seasonality_query :: "int \<Rightarrow> warehouse \<Rightarrow> string + season_row list" where
  "seasonality_query n w =
     (case top_produtos_by_sum n w of
        Inl e \<Rightarrow> Inl e
      | Inr top_produtos \<Rightarrow>
          Inr (sort_key (\<lambda>r. (mes r, produto_s r))
                 (map season_row_of
                    (group_by (\<lambda>r. (product_name r, month_key r))
                       (filter (\<lambda>r. where_named r \<and> product_name r \<in> set top_produtos
                                   \<and> data r \<noteq> None)
                          (itens_venda_mm w))))))"

text \<open>
  The second query, used when the first has no row: the sale lines of the products
  with the most lines, each with its sale id and its quantity.
\<close>

definition top_produtos_by_count :: "int \<Rightarrow> warehouse \<Rightarrow> string + string list" where
  "top_produtos_by_count n w =
     sql_limit n
       (map fst
          (order_by_desc (\<lambda>g. Some (of_nat (length (snd g))))
             (group_by product_name (filter where_named (itens_venda_mm w)))))"

record alt_row =
  produto_a :: string
  vendaId_a :: "int option"
  quantidade_a :: "rat option"

definition alt_row_of :: "sale_item \<Rightarrow> alt_row" where
  "alt_row_of r =
     \<lparr>produto_a = product_name r, vendaId_a = vendaId r, quantidade_a = qtde r\<rparr>"

definition seasonality_alt_query :: "int \<Rightarrow> warehouse \<Rightarrow> string + alt_row list" where
  "seasonality_alt_query n w =
     (case top_produtos_by_count n w of
        Inl e \<Rightarrow> Inl e
      | Inr top_produtos \<Rightarrow>
          Inr (map alt_row_of
                 (filter (\<lambda>r. where_named r \<and> product_name r \<in> set top_produtos)
                    (itens_venda_mm w))))"

text \<open>\<^verbatim>\<open>df['vendaId'].max()\<close>: the largest sale id present, NaN when there is none.\<close>

definition max_venda_of :: "alt_row list \<Rightarrow> int option" where
  "max_venda_of df =
     (case non_null (map vendaId_a df) of [] \<Rightarrow> None | x # xs \<Rightarrow> Some (fold max xs x))"

text \<open>\<^verbatim>\<open>.astype(int)\<close> on a finite number drops the fraction (rounds toward zero).\<close>

definition astype_int :: "rat \<Rightarrow> int" where
  "astype_int x = (if 0 \<le> x then \<lfloor>x\<rfloor> else \<lceil>x\<rceil>)"

text \<open>
  \<^verbatim>\<open>(df['vendaId'] / max_venda * 12).astype(int) % 12 + 1\<close> for one row. A missing
  sale id is NaN and a zero maximum gives an infinity or NaN: \<^verbatim>\<open>astype(int)\<close>
  raises on both.
\<close>

definition mes_num_of :: "int \<Rightarrow> int \<Rightarrow> int" where
  "mes_num_of venda max_venda =
     astype_int (of_int venda / of_int max_venda * 12) mod 12 + 1"

definition mes_num_cell :: "int option \<Rightarrow> int option \<Rightarrow> string + int" where
  "mes_num_cell venda max_venda =
     (case venda of
        None \<Rightarrow> Inl ''Cannot convert non-finite values (NA or inf) to integer''
      | Some v \<Rightarrow>
          (case max_venda of
             None \<Rightarrow> Inl ''Cannot convert non-finite values (NA or inf) to integer''
           | Some m \<Rightarrow>
               if m = 0 then Inl ''Cannot convert non-finite values (NA or inf) to integer''
               else Inr (mes_num_of v m)))"

text \<open>The bucket as the specification words it, with a floor.\<close>

definition bucket_spec :: "int \<Rightarrow> int \<Rightarrow> int" where
  "bucket_spec saleId maxSaleId = \<lfloor>of_int saleId / of_int maxSaleId * 12 :: rat\<rfloor> mod 12 + 1"

record mes_row = alt_row +
  mes_num :: int
  mes_a :: string

text \<open>The first exception of a column computation, or all its values.\<close>

fun collect :: "(string + 'a) list \<Rightarrow> string + 'a list" where
  "collect [] = Inr []"
| "collect (Inl e # xs) = Inl e"
| "collect (Inr x # xs) = (case collect xs of Inl e \<Rightarrow> Inl e | Inr ys \<Rightarrow> Inr (x # ys))"

text \<open>
  The two new columns of a row: \<^verbatim>\<open>mes_num\<close>, and \<^verbatim>\<open>mes\<close> by
  \<^verbatim>\<open>pd.to_datetime(df['mes_num'], format='%m').dt.strftime('2024-%m')\<close>.
\<close>

definition mes_row_of :: "alt_row \<Rightarrow> int \<Rightarrow> mes_row" where
  "mes_row_of r m = alt_row.extend r (mes_row.fields m (''2024-'' @ pad2 (nat m)))"

definition add_mes :: "alt_row list \<Rightarrow> string + mes_row list" where
  "add_mes df =
     collect
       (map (\<lambda>r. case mes_num_cell (vendaId_a r) (max_venda_of df) of
                    Inl e \<Rightarrow> Inl e
                  | Inr m \<Rightarrow> Inr (mes_row_of r m))
          df)"

text \<open>
  \<^verbatim>\<open>df.groupby(['produto', 'mes'])['quantidade'].sum().reset_index()\<close>: the groups in
  the order of their keys, the sum skipping missing quantities.
\<close>

definition groupby_sum :: "mes_row list \<Rightarrow> season_row list" where
  "groupby_sum df =
     map (\<lambda>g. \<lparr>produto_s = fst (fst g), mes = snd (fst g),
                quantidade = Some (sum_list (non_null (map quantidade_a (snd g))))\<rparr>)
       (sort_key fst (group_by (\<lambda>r. (produto_a r, mes_a r)) df))"

definition seasonality_fallback :: "alt_row list \<Rightarrow> string + season_row list" where
  "seasonality_fallback df =
     (if df \<noteq> [] then
        (case add_mes df of Inl e \<Rightarrow> Inl e | Inr rows \<Rightarrow> Inr (groupby_sum rows))
      else Inr [])"

definition get_seasonality_data_try :: "int \<Rightarrow> connection \<Rightarrow> string + season_row list" where
  "get_seasonality_data_try n c =
     (case read_sql (seasonality_query n) c of
        Inl e \<Rightarrow> Inl e
      | Inr df \<Rightarrow>
          if df = [] then
            (case read_sql (seasonality_alt_query n) c of
               Inl e \<Rightarrow> Inl e
             | Inr df_alt \<Rightarrow> seasonality_fallback df_alt)
          else Inr df)"

definition get_seasonality_data :: "int \<Rightarrow> connection option \<Rightarrow> season_row list" where
  "get_seasonality_data n conn =
     (case conn of
        None \<Rightarrow> []
      | Some c \<Rightarrow> (case get_seasonality_data_try n c of Inl e \<Rightarrow> [] | Inr df \<Rightarrow> df))"

section \<open>The top-N arbitration\<close>

text \<open>\<^verbatim>\<open>top_n = top_n_input if top_n_input != top_n_slider else top_n_slider\<close>\<close>

definition top_n :: "int \<Rightarrow> int \<Rightarrow> int" where
  "top_n top_n_input top_n_slider =
     (if top_n_input \<noteq> top_n_slider then top_n_input else top_n_slider)"

section \<open>A seeded warehouse\<close>

text \<open>
  Three products sold in quantities 50, 30 and 20. The second has no value, the third
  no date; the catalog knows the second under another spelling.
\<close>

text \<open>
  The \<^verbatim>\<open>LOWER\<close> of the seeded warehouses, on UTF-8 text: the ASCII letters, and
  the accented capital letters of Latin-1, whose codes are the byte \<open>0xC3\<close> and one
  more byte.
\<close>

definition lower_char :: "char \<Rightarrow> char" where
  "lower_char c =
     (case map_of (zip ''ABCDEFGHIJKLMNOPQRSTUVWXYZ'' ''abcdefghijklmnopqrstuvwxyz'') c of
        None \<Rightarrow> c
      | Some l \<Rightarrow> l)"

definition latin1_lower :: "char \<Rightarrow> char" where
  "latin1_lower d =
     (case map_of
        (zip [CHR 0x80, CHR 0x81, CHR 0x82, CHR 0x83, CHR 0x84, CHR 0x85, CHR 0x86, CHR 0x87,
             CHR 0x88, CHR 0x89, CHR 0x8A, CHR 0x8B, CHR 0x8C, CHR 0x8D, CHR 0x8E, CHR 0x8F,
             CHR 0x90, CHR 0x91, CHR 0x92, CHR 0x93, CHR 0x94, CHR 0x95, CHR 0x96, CHR 0x98,
             CHR 0x99, CHR 0x9A, CHR 0x9B, CHR 0x9C, CHR 0x9D, CHR 0x9E]
             [CHR 0xA0, CHR 0xA1, CHR 0xA2, CHR 0xA3, CHR 0xA4, CHR 0xA5, CHR 0xA6, CHR 0xA7,
              CHR 0xA8, CHR 0xA9, CHR 0xAA, CHR 0xAB, CHR 0xAC, CHR 0xAD, CHR 0xAE, CHR 0xAF,
              CHR 0xB0, CHR 0xB1, CHR 0xB2, CHR 0xB3, CHR 0xB4, CHR 0xB5, CHR 0xB6, CHR 0xB8,
              CHR 0xB9, CHR 0xBA, CHR 0xBB, CHR 0xBC, CHR 0xBD, CHR 0xBE]) d of
        None \<Rightarrow> d
      | Some l \<Rightarrow> l)"

fun seed_lower :: "string \<Rightarrow> string" where
  "seed_lower (c # d # cs) =
     (if c = CHR 0xC3 then c # latin1_lower d # seed_lower cs
      else lower_char c # seed_lower (d # cs))"
| "seed_lower [c] = [lower_char c]"
| "seed_lower [] = []"

definition demo_ts :: sql_timestamp where
  "demo_ts = \<lparr>ts_year = 2024, ts_month = 3, ts_day = 15, ts_seconds = 0\<rparr>"

definition demo_sales :: "sale_item list" where
  "demo_sales =
     [\<lparr>descricaoProduto = Some ''areia'', qtde = Some 30, valor = None,
       vendaId = Some 2, un = Some ''M3'', data = Some demo_ts\<rparr>,
      \<lparr>descricaoProduto = Some '' cimento '', qtde = Some 50, valor = Some (2469 / 2),
       vendaId = Some 1, un = Some ''SC'', data = Some demo_ts\<rparr>,
      \<lparr>descricaoProduto = Some ''tijolo'', qtde = Some 20, valor = Some 10,
       vendaId = Some 3, un = Some ''UN'', data = None\<rparr>]"

definition demo_catalog :: "catalog_item list" where
  "demo_catalog =
     [\<lparr>p_id = Some 7, descricao = Some ''Areia '', estoque = Some 60,
       grupo = Some ''agregados'', codigo_fab = None\<rparr>]"

definition demo_conn :: connection where
  "demo_conn =
     \<lparr>tables = \<lparr>itens_venda_mm = demo_sales, produtos_mm = demo_catalog,
                sql_lower = seed_lower\<rparr>,
      query_fault = None\<rparr>"

text \<open>The same sales with a catalog whose only entry has no id.\<close>

definition null_id_catalog :: "catalog_item list" where
  "null_id_catalog =
     [\<lparr>p_id = None, descricao = Some ''CIMENTO'', estoque = Some 100,
       grupo = None, codigo_fab = None\<rparr>]"

definition null_id_conn :: connection where
  "null_id_conn =
     \<lparr>tables = \<lparr>itens_venda_mm = demo_sales, produtos_mm = null_id_catalog,
                sql_lower = seed_lower\<rparr>,
      query_fault = None\<rparr>"

text \<open>
  A product written with an accented capital in the sales and in small letters in the
  catalog: the bytes \<open>0xC3 0x81\<close> and \<open>0xC3 0xA1\<close> are the capital and the small
  a with an acute accent.
\<close>

definition accent_sales :: "sale_item list" where
  "accent_sales =
     [\<lparr>descricaoProduto = Some ([CHR 0xC3, CHR 0x81] @ ''GUA SANITARIA''), qtde = Some 12,
       valor = Some 36, vendaId = Some 4, un = Some ''UN'', data = Some demo_ts\<rparr>,
      \<lparr>descricaoProduto = Some ''cal'', qtde = Some 5,
       valor = Some 40, vendaId = Some 5, un = Some ''SC'', data = Some demo_ts\<rparr>]"

definition accent_catalog :: "catalog_item list" where
  "accent_catalog =
     [\<lparr>p_id = Some 3, descricao = Some ('' '' @ [CHR 0xC3, CHR 0xA1] @ ''gua sanitaria''),
       estoque = Some 24, grupo = Some ''limpeza'', codigo_fab = Some ''AS1''\<rparr>]"

definition accent_conn :: connection where
  "accent_conn =
     \<lparr>tables = \<lparr>itens_venda_mm = accent_sales, produtos_mm = accent_catalog,
                sql_lower = seed_lower\<rparr>,
      query_fault = None\<rparr>"

text \<open>
  One product sold in three lines on two days, 90 in all; and one product sold 90 in
  a line without a date.
\<close>

definition days_sales :: "sale_item list" where
  "days_sales =
     [\<lparr>descricaoProduto = Some ''areia'', qtde = Some 10, valor = Some 20,
       vendaId = Some 1, un = Some ''M3'',
       data = Some \<lparr>ts_year = 2024, ts_month = 3, ts_day = 15, ts_seconds = 0\<rparr>\<rparr>,
      \<lparr>descricaoProduto = Some ''areia'', qtde = Some 20, valor = Some 40,
       vendaId = Some 2, un = Some ''M3'',
       data = Some \<lparr>ts_year = 2024, ts_month = 3, ts_day = 15, ts_seconds = 3600\<rparr>\<rparr>,
      \<lparr>descricaoProduto = Some ''areia'', qtde = Some 60, valor = Some 120,
       vendaId = Some 3, un = Some ''M3'',
       data = Some \<lparr>ts_year = 2024, ts_month = 3, ts_day = 16, ts_seconds = 0\<rparr>\<rparr>]"

definition days_conn :: connection where
  "days_conn =
     \<lparr>tables = \<lparr>itens_venda_mm = days_sales, produtos_mm = [], sql_lower = seed_lower\<rparr>,
      query_fault = None\<rparr>"

definition ninety_sales :: "sale_item list" where
  "ninety_sales =
     [\<lparr>descricaoProduto = Some ''brita'', qtde = Some 90, valor = Some 180,
       vendaId = Some 1, un = Some ''M3'', data = None\<rparr>]"

definition ninety_conn :: connection where
  "ninety_conn =
     \<lparr>tables = \<lparr>itens_venda_mm = ninety_sales, produtos_mm = [], sql_lower = seed_lower\<rparr>,
      query_fault = None\<rparr>"

text \<open>
  Sale lines without a date, so that the first seasonality query has no row, and the
  rows the second query returns for them; then two rows with sale ids of both signs.
\<close>

definition undated_sales :: "sale_item list" where
  "undated_sales =
     [\<lparr>descricaoProduto = Some ''areia'', qtde = Some 5, valor = Some 10,
       vendaId = Some 3, un = Some ''M3'', data = None\<rparr>,
      \<lparr>descricaoProduto = Some ''areia'', qtde = Some 7, valor = Some 14,
       vendaId = Some 6, un = Some ''M3'', data = None\<rparr>,
      \<lparr>descricaoProduto = Some ''brita'', qtde = Some 2, valor = None,
       vendaId = Some 12, un = None, data = None\<rparr>]"

definition undated_conn :: connection where
  "undated_conn =
     \<lparr>tables = \<lparr>itens_venda_mm = undated_sales, produtos_mm = [], sql_lower = seed_lower\<rparr>,
      query_fault = None\<rparr>"

definition undated_alt :: "alt_row list" where
  "undated_alt =
     [\<lparr>produto_a = ''areia'', vendaId_a = Some 3, quantidade_a = Some 5\<rparr>,
      \<lparr>produto_a = ''areia'', vendaId_a = Some 6, quantidade_a = Some 7\<rparr>,
      \<lparr>produto_a = ''brita'', vendaId_a = Some 12, quantidade_a = Some 2\<rparr>]"

definition undated_mes :: "mes_row list" where
  "undated_mes =
     [\<lparr>produto_a = ''areia'', vendaId_a = Some 3, quantidade_a = Some 5,
       mes_num = 4, mes_a = ''2024-04''\<rparr>,
      \<lparr>produto_a = ''areia'', vendaId_a = Some 6, quantidade_a = Some 7,
       mes_num = 7, mes_a = ''2024-07''\<rparr>,
      \<lparr>produto_a = ''brita'', vendaId_a = Some 12, quantidade_a = Some 2,
       mes_num = 1, mes_a = ''2024-01''\<rparr>]"

definition signed_alt :: "alt_row list" where
  "signed_alt =
     [\<lparr>produto_a = ''areia'', vendaId_a = Some (- 1), quantidade_a = Some 5\<rparr>,
      \<lparr>produto_a = ''areia'', vendaId_a = Some 10, quantidade_a = Some 7\<rparr>]"

section \<open>Theorems\<close>

text \<open>
  C7: \<^verbatim>\<open>get_total_products\<close> returns the fallback 10 when there is no connection and
  when the query raises, and it returns a value (never an exception) for every
  connection state.
\<close>

theorem get_total_products_fallback:
  "get_total_products None = Inr 10
   \<and> get_total_products (Some (c\<lparr>query_fault := Some e\<rparr>)) = Inr 10
   \<and> (\<exists>n. get_total_products conn = Inr n)"
  by (simp add: get_total_products_def get_total_products_try_def read_sql_def
      split: option.splits sum.splits list.splits)

theorem get_total_products_fallback_witness:
  "get_total_products None = Inr 10
   \<and> get_total_products
       (Some \<lparr>tables = \<lparr>itens_venda_mm = [], produtos_mm = [], sql_lower = seed_lower\<rparr>,
              query_fault = Some ''timeout''\<rparr>) = Inr 10
   \<and> (\<exists>n. get_total_products
       (Some \<lparr>tables = \<lparr>itens_venda_mm = [], produtos_mm = [], sql_lower = seed_lower\<rparr>,
              query_fault = None\<rparr>) = Inr n)"
  using get_total_products_fallback
    [where c = "\<lparr>tables = \<lparr>itens_venda_mm = [], produtos_mm = [], sql_lower = seed_lower\<rparr>, query_fault = None\<rparr>"
       and e = "''timeout''"
       and conn = "Some \<lparr>tables = \<lparr>itens_venda_mm = [], produtos_mm = [], sql_lower = seed_lower\<rparr>,
                          query_fault = None\<rparr>"]
  by simp

text \<open>
  C10: the arbitration between the slider and the number input is the identity on the
  number input's value, for every pair of values.
\<close>

theorem top_n_is_input: "top_n top_n_input top_n_slider = top_n_input"
  by (simp add: top_n_def)

subsection \<open>The currency text\<close>

lemma decimal_small: "n < 10 \<Longrightarrow> decimal n = [digit_char n]"
  by (simp add: decimal.simps)

lemma decimal_big:
  "10 \<le> n \<Longrightarrow> decimal n = decimal (n div 10) @ [digit_char (n mod 10)]"
  by (subst decimal.simps) simp

lemma digit_char_cases: "digit_char d \<in> set ''0123456789''"
proof -
  have "d mod 10 < length ''0123456789''" by simp
  then show ?thesis unfolding digit_char_def by (rule nth_mem)
qed

lemma swap_digit: "c \<in> set ''0123456789'' \<Longrightarrow> swap_separators c = c"
  by (auto simp: swap_separators_def)

lemma decimal_digits: "set (decimal n) \<subseteq> set ''0123456789''"
proof (induction n rule: decimal.induct)
  case (1 n)
  show ?case
  proof (cases "n < 10")
    case True
    then show ?thesis using digit_char_cases [of n] by (simp add: decimal_small)
  next
    case False
    then show ?thesis
      using 1 digit_char_cases [of "n mod 10"] by (simp add: decimal_big)
  qed
qed

lemma map_swap_digits:
  "set ds \<subseteq> set ''0123456789'' \<Longrightarrow> map swap_separators ds = ds"
  by (rule map_idI) (blast intro: swap_digit)

lemma map_group3_rev: "map f (group3_rev sep ds) = group3_rev (f sep) (map f ds)"
  by (induction sep ds rule: group3_rev.induct) simp_all

lemma map_thousands: "map f (thousands sep ds) = thousands (f sep) (map f ds)"
  by (simp add: thousands_def map_group3_rev rev_map [symmetric])

lemma replace_chain:
  "replace_char (CHR ''X'') (CHR ''.'')
     (replace_char (CHR ''.'') (CHR '','') (replace_char (CHR '','') (CHR ''X'') s))
   = map swap_separators s"
  by (simp add: replace_char_def swap_separators_def)

lemma formatter_refines: "valor_total_formatado_of v = currency_spec v"
proof (cases v)
  case None
  then show ?thesis by (simp add: valor_total_formatado_of_def currency_spec_def)
next
  case (Some x)
  define cents where "cents = nat (round_half_even (\<bar>x\<bar> * 100))"
  have d: "map swap_separators (decimal (cents div 100)) = decimal (cents div 100)"
    by (rule map_swap_digits [OF decimal_digits])
  have c1: "swap_separators (digit_char (cents mod 100 div 10))
      = digit_char (cents mod 100 div 10)"
    by (rule swap_digit [OF digit_char_cases])
  have c2: "swap_separators (digit_char (cents mod 10)) = digit_char (cents mod 10)"
    by (rule swap_digit [OF digit_char_cases])
  have s: "swap_separators (CHR '','') = CHR ''.''"
    "swap_separators (CHR ''.'') = CHR '',''"
    "swap_separators (CHR ''R'') = CHR ''R''" "swap_separators (CHR ''$'') = CHR ''$''"
    "swap_separators (CHR '' '') = CHR '' ''" "swap_separators (CHR ''-'') = CHR ''-''"
    by (simp_all add: swap_separators_def)
  show ?thesis
    unfolding Some valor_total_formatado_of_def currency_spec_def option.case replace_chain
      format_comma_2f_def Let_def cents_def [symmetric]
    by (simp add: map_thousands d c1 c2 s)
qed

lemma format_1234_50: "valor_total_formatado_of (Some (2469 / 2)) = ''R$ 1.234,50''"
  by (simp add: valor_total_formatado_of_def format_comma_2f_def round_half_even_def
      thousands_def decimal_small decimal_big digit_char_def replace_char_def Let_def)

text \<open>
  C5: the currency formatter maps 1234.5 to \<^verbatim>\<open>R$ 1.234,50\<close> and a missing value to
  a dash; for every value its output is the text of the specification: prefix
  \<^verbatim>\<open>R$\<close>, dots between the thousands, a decimal comma and two decimals.
\<close>

theorem valor_total_formatado_currency:
  "valor_total_formatado_of (Some (2469 / 2)) = ''R$ 1.234,50''
   \<and> valor_total_formatado_of None = ''-''
   \<and> valor_total_formatado_of v = currency_spec v"
proof (intro conjI)
  show "valor_total_formatado_of (Some (2469 / 2)) = ''R$ 1.234,50''"
    by (rule format_1234_50)
  show "valor_total_formatado_of None = ''-''"
    by (simp add: valor_total_formatado_of_def)
  show "valor_total_formatado_of v = currency_spec v"
    by (rule formatter_refines)
qed

theorem valor_total_formatado_currency_witness:
  "valor_total_formatado_of (Some (2469 / 2)) = ''R$ 1.234,50''
   \<and> valor_total_formatado_of None = ''-''
   \<and> currency_spec (Some 1000000) = ''R$ 1.000.000,00''"
proof -
  have "valor_total_formatado_of (Some 1000000) = ''R$ 1.000.000,00''"
    by (simp add: valor_total_formatado_of_def format_comma_2f_def round_half_even_def
        thousands_def decimal_small decimal_big digit_char_def replace_char_def Let_def)
  then show ?thesis
    using valor_total_formatado_currency [of "Some 1000000"] by simp
qed

subsection \<open>The ranking\<close>

lemma to_numeric_coerce_id: "to_numeric_coerce v = v"
  by (cases v) (simp_all add: to_numeric_coerce_def)

lemma dropna_Nil: "dropna_produto_quantidade [] = []"
  by (simp add: dropna_produto_quantidade_def)

lemma get_top_products_try_eq:
  "get_top_products_try limit c =
     (case read_sql (top_products_query limit) c of
        Inl e \<Rightarrow> Inl e | Inr df \<Rightarrow> Inr (dropna_produto_quantidade df))"
  by (simp add: get_top_products_try_def to_numeric_coerce_id dropna_Nil split: sum.splits)

lemma get_top_products_cases:
  "get_top_products limit conn = []
   \<or> (\<exists>c. conn = Some c \<and> 0 \<le> limit
        \<and> get_top_products limit conn
            = dropna_produto_quantidade (take (nat limit) (ranking (tables c))))"
  by (auto simp: get_top_products_def get_top_products_try_eq read_sql_def
      top_products_query_def sql_limit_def split: option.splits sum.splits if_splits)

lemma distinct_map_insort_key:
  "distinct (map f (insort_key k x xs)) \<longleftrightarrow> f x \<notin> f ` set xs \<and> distinct (map f xs)"
  by (induction xs) (auto simp: set_insort_key)

lemma distinct_map_sort_key:
  "distinct (map f (sort_key k xs)) \<longleftrightarrow> distinct (map f xs)"
  by (induction xs) (simp_all add: distinct_map_insort_key)

lemma map_fst_group_by: "map fst (group_by key rows) = remdups (map key rows)"
  by (simp add: group_by_def comp_def)

lemma produto_top_row_of: "produto (top_row_of g) = Some (fst g)"
  by (simp add: top_row_of_def)

lemma distinct_ranking: "distinct (map produto (ranking w))"
proof -
  define rows where "rows = filter where_sold (itens_venda_mm w)"
  have "map produto (map top_row_of (group_by trimmed_product rows))
      = map Some (map fst (group_by trimmed_product rows))"
    by (simp add: comp_def produto_top_row_of)
  also have "\<dots> = map Some (remdups (map trimmed_product rows))"
    by (simp only: map_fst_group_by)
  finally have "distinct (map produto (map top_row_of (group_by trimmed_product rows)))"
    by (simp only: distinct_map distinct_remdups) simp
  then show ?thesis
    unfolding ranking_def order_by_desc_def rows_def [symmetric]
    by (simp only: distinct_map_sort_key)
qed

lemma sorted_ranking: "sorted (map (\<lambda>r. desc_nulls_last (quantidade_total r)) (ranking w))"
  unfolding ranking_def order_by_desc_def by (rule sorted_sort_key)

lemma desc_sorted_values:
  "\<forall>r\<in>set rs. col r \<noteq> None \<Longrightarrow> sorted (map (\<lambda>r. desc_nulls_last (col r)) rs)
   \<Longrightarrow> sorted (rev (map (\<lambda>r. the (col r)) rs))"
proof (induction rs)
  case Nil
  then show ?case by simp
next
  case (Cons r rs)
  have tail: "sorted (rev (map (\<lambda>r. the (col r)) rs))"
    using Cons by simp
  have "the (col x) \<le> the (col r)" if "x \<in> set rs" for x
  proof -
    have "col r \<noteq> None" "col x \<noteq> None"
      using Cons.prems(1) that by simp_all
    then obtain a b where "col r = Some a" "col x = Some b"
      by blast
    moreover have "desc_nulls_last (col r) \<le> desc_nulls_last (col x)"
      using Cons.prems(2) that by simp
    ultimately show ?thesis by (simp add: desc_nulls_last_def)
  qed
  with tail show ?case by (auto simp: sorted_append)
qed

lemma dropna_cols:
  "r \<in> set (dropna_produto_quantidade df) \<Longrightarrow> produto r \<noteq> None \<and> quantidade_total r \<noteq> None"
  by (simp add: dropna_produto_quantidade_def)

lemma ranking_shape:
  fixes w n
  defines "rs \<equiv> dropna_produto_quantidade (take n (ranking w))"
  shows "length rs \<le> n"
    and "map quantidade_total rs = map Some (map (\<lambda>r. the (quantidade_total r)) rs)"
    and "sorted (rev (map (\<lambda>r. the (quantidade_total r)) rs))"
    and "distinct (map produto rs)"
proof -
  show "length rs \<le> n"
    unfolding rs_def dropna_produto_quantidade_def
    by (rule order_trans [OF length_filter_le]) simp
  have some: "\<forall>r\<in>set rs. quantidade_total r \<noteq> None"
    unfolding rs_def using dropna_cols by blast
  then show "map quantidade_total rs = map Some (map (\<lambda>r. the (quantidade_total r)) rs)"
    by (induction rs) auto
  have "sorted (map (\<lambda>r. desc_nulls_last (quantidade_total r)) (take n (ranking w)))"
    using sorted_wrt_take [OF sorted_ranking [of w], of n] by (simp add: take_map)
  then have "sorted (map (\<lambda>r. desc_nulls_last (quantidade_total r)) rs)"
    unfolding rs_def dropna_produto_quantidade_def by (rule sorted_filter)
  with some show "sorted (rev (map (\<lambda>r. the (quantidade_total r)) rs))"
    by (rule desc_sorted_values)
  have "distinct (map produto (take n (ranking w)))"
    using distinct_take [OF distinct_ranking [of w], of n] by (simp add: take_map)
  then show "distinct (map produto rs)"
    unfolding rs_def dropna_produto_quantidade_def by (rule distinct_map_filter)
qed

lemma sql_trim_demo:
  "sql_trim ''areia'' = ''areia''" "sql_trim '' cimento '' = ''cimento''"
  "sql_trim ''tijolo'' = ''tijolo''"
  by (simp_all add: sql_trim_def)

lemma demo_top_products:
  "get_top_products 2 (Some demo_conn) =
     [\<lparr>produto = Some ''cimento'', quantidade_total = Some 50, num_vendas = 1,
       valor_total = Some (2469 / 2), unidade = Some ''SC''\<rparr>,
      \<lparr>produto = Some ''areia'', quantidade_total = Some 30, num_vendas = 1,
       valor_total = None, unidade = Some ''M3''\<rparr>]"
  by (simp add: get_top_products_def get_top_products_try_eq read_sql_def demo_conn_def
      top_products_query_def sql_limit_def ranking_def order_by_desc_def group_by_def demo_sales_def
      where_sold_def trimmed_product_def sql_trim_demo top_row_of_def sql_sum_def
      count_distinct_def desc_nulls_last_def dropna_produto_quantidade_def)

text \<open>
  C2: for every limit of at least 2 and every state of the connection and the tables,
  \<^verbatim>\<open>get_top_products\<close> returns at most that many rows, their quantities are all
  present and descend, and no product name occurs twice.
\<close>

theorem get_top_products_ranking:
  assumes "2 \<le> N"
  shows "length (get_top_products N conn) \<le> nat N
     \<and> (\<exists>qs. map quantidade_total (get_top_products N conn) = map Some qs \<and> sorted (rev qs))
     \<and> distinct (map produto (get_top_products N conn))"
proof -
  consider "get_top_products N conn = []"
    | c :: connection where "get_top_products N conn
        = dropna_produto_quantidade (take (nat N) (ranking (tables c)))"
    using get_top_products_cases [of N conn] by blast
  then show ?thesis
  proof cases
    case 1
    have "map quantidade_total ([] :: top_row list) = map Some [] \<and> sorted (rev ([] :: rat list))"
      by simp
    then show ?thesis unfolding 1 by (intro conjI exI [of _ "[]"]) simp_all
  next
    case 2
    show ?thesis
      unfolding 2
      using ranking_shape [of "nat N" "tables c"] by blast
  qed
qed

theorem get_top_products_ranking_witness:
  "(2 :: int) \<le> 2
   \<and> length (get_top_products 2 (Some demo_conn)) \<le> nat 2
   \<and> map quantidade_total (get_top_products 2 (Some demo_conn)) = map Some [50, 30]
   \<and> sorted (rev [50, 30 :: rat])
   \<and> map produto (get_top_products 2 (Some demo_conn)) = [Some ''cimento'', Some ''areia'']
   \<and> distinct (map produto (get_top_products 2 (Some demo_conn)))"
  using get_top_products_ranking [of 2 "Some demo_conn"]
  by (simp add: demo_top_products)

lemma group_by_member:
  assumes "g \<in> set (group_by key rows)"
  shows "snd g \<noteq> []" and "set (snd g) \<subseteq> set rows"
proof -
  obtain k where k: "k \<in> set (map key rows)" "g = (k, filter (\<lambda>r. key r = k) rows)"
    using assms by (auto simp: group_by_def)
  then obtain r where "r \<in> set rows" "key r = k" by auto
  then have "r \<in> set (snd g)" using k(2) by simp
  then show "snd g \<noteq> []" by (cases "snd g") simp_all
  show "set (snd g) \<subseteq> set rows" using k(2) by auto
qed

lemma non_null_all_Some:
  "\<forall>r\<in>set xs. f r \<noteq> None \<Longrightarrow> non_null (map f xs) = map (\<lambda>r. the (f r)) xs"
  by (induction xs) auto

lemma sum_list_positive:
  fixes xs :: "rat list"
  shows "xs \<noteq> [] \<Longrightarrow> \<forall>x\<in>set xs. 0 < x \<Longrightarrow> 0 < sum_list xs"
proof (induction xs)
  case Nil
  then show ?case by simp
next
  case (Cons x xs)
  then show ?case by (cases xs) (auto intro: add_pos_pos)
qed

lemma sql_sum_positive:
  assumes "xs \<noteq> []" and "\<forall>r\<in>set xs. \<exists>q. f r = Some q \<and> 0 < q"
  shows "\<exists>s. sql_sum (map f xs) = Some s \<and> 0 < s"
proof -
  have nn: "non_null (map f xs) = map (\<lambda>r. the (f r)) xs"
    using assms(2) by (intro non_null_all_Some) auto
  have "map (\<lambda>r. the (f r)) xs \<noteq> []" using assms(1) by simp
  moreover have "\<forall>x\<in>set (map (\<lambda>r. the (f r)) xs). 0 < x"
    using assms(2) by auto
  ultimately have "0 < sum_list (map (\<lambda>r. the (f r)) xs)"
    by (rule sum_list_positive)
  moreover have "sql_sum (map f xs) = Some (sum_list (map (\<lambda>r. the (f r)) xs))"
    unfolding sql_sum_def nn using assms(1) by (cases xs) simp_all
  ultimately show ?thesis by simp
qed

lemma where_sold_qtde: "where_sold r \<Longrightarrow> \<exists>q. qtde r = Some q \<and> 0 < q"
  by (auto simp: where_sold_def split: option.splits)

lemma ranking_positive:
  assumes "r \<in> set (ranking w)"
  shows "\<exists>q. quantidade_total r = Some q \<and> 0 < q"
proof -
  obtain g where g: "g \<in> set (group_by trimmed_product (filter where_sold (itens_venda_mm w)))"
      and r: "r = top_row_of g"
    using assms by (auto simp: ranking_def order_by_desc_def)
  have "snd g \<noteq> []" and "\<forall>x\<in>set (snd g). \<exists>q. qtde x = Some q \<and> 0 < q"
    using group_by_member [OF g] where_sold_qtde by auto
  then have "\<exists>s. sql_sum (map qtde (snd g)) = Some s \<and> 0 < s"
    by (rule sql_sum_positive)
  then show ?thesis by (simp add: r top_row_of_def)
qed

text \<open>
  C9: every row that \<^verbatim>\<open>get_top_products\<close> returns has a total quantity, and it is
  strictly positive: only sale lines with a positive quantity are summed.
\<close>

theorem get_top_products_positive:
  assumes "r \<in> set (get_top_products N conn)"
  shows "\<exists>q. quantidade_total r = Some q \<and> 0 < q"
proof -
  obtain c :: connection where "r \<in> set (dropna_produto_quantidade (take (nat N) (ranking (tables c))))"
    using assms get_top_products_cases [of N conn] by auto
  then have "r \<in> set (ranking (tables c))"
    by (auto simp: dropna_produto_quantidade_def dest: in_set_takeD)
  then show ?thesis by (rule ranking_positive)
qed

theorem get_top_products_positive_witness:
  "\<lparr>produto = Some ''areia'', quantidade_total = Some 30, num_vendas = 1,
    valor_total = None, unidade = Some ''M3''\<rparr> \<in> set (get_top_products 2 (Some demo_conn))
   \<and> (\<exists>q. quantidade_total
          \<lparr>produto = Some ''areia'', quantidade_total = Some 30, num_vendas = 1,
           valor_total = None, unidade = Some ''M3''\<rparr> = Some q \<and> 0 < q)"
  using get_top_products_positive
    [of "\<lparr>produto = Some ''areia'', quantidade_total = Some 30, num_vendas = 1,
          valor_total = None, unidade = Some ''M3''\<rparr>" 2 "Some demo_conn"]
  by (simp add: demo_top_products)

lemma top_part_extend:
  "top_part (top_row.extend r (clean_row.fields s)) = r"
  by (simp add: top_part_def top_row.defs clean_row.defs)

lemma formatado_extend:
  "valor_total_formatado (top_row.extend r (clean_row.fields s)) = s"
  by (simp add: top_row.defs clean_row.defs)

lemma produtos_top_clean_eq:
  "produtos_top_clean df =
     map (\<lambda>r. top_row.extend r (clean_row.fields (valor_total_formatado_of (valor_total r))))
       (dropna_produto_quantidade df)"
proof -
  have "filter (\<lambda>r. quantidade_total r \<noteq> None) (dropna_produto_quantidade df)
      = dropna_produto_quantidade df"
    by (simp add: dropna_produto_quantidade_def conj_commute)
  then show ?thesis
    by (simp add: produtos_top_clean_def to_numeric_coerce_id)
qed

text \<open>
  C8, as the code has it: the cleaning drops exactly the rows whose product or quantity
  is missing and keeps every other row unchanged, so a returned row has a product and a
  numeric quantity; a missing total value does not drop the row and is not replaced by
  zero: the row keeps it and shows a dash.
\<close>

theorem produtos_top_clean_rows:
  "map top_part (produtos_top_clean df)
     = filter (\<lambda>r. produto r \<noteq> None \<and> quantidade_total r \<noteq> None) df
   \<and> map valor_total_formatado (produtos_top_clean df)
     = map (\<lambda>r. valor_total_formatado_of (valor_total r))
         (filter (\<lambda>r. produto r \<noteq> None \<and> quantidade_total r \<noteq> None) df)
   \<and> (\<forall>r\<in>set (produtos_top_clean df). produto r \<noteq> None \<and> quantidade_total r \<noteq> None)"
proof (intro conjI)
  show 1: "map top_part (produtos_top_clean df)
     = filter (\<lambda>r. produto r \<noteq> None \<and> quantidade_total r \<noteq> None) df"
    by (simp add: produtos_top_clean_eq comp_def top_part_extend)
       (simp add: dropna_produto_quantidade_def)
  show "map valor_total_formatado (produtos_top_clean df)
     = map (\<lambda>r. valor_total_formatado_of (valor_total r))
         (filter (\<lambda>r. produto r \<noteq> None \<and> quantidade_total r \<noteq> None) df)"
    by (simp add: produtos_top_clean_eq comp_def formatado_extend)
       (simp add: dropna_produto_quantidade_def)
  show "\<forall>r\<in>set (produtos_top_clean df). produto r \<noteq> None \<and> quantidade_total r \<noteq> None"
  proof
    fix r assume "r \<in> set (produtos_top_clean df)"
    then have "top_part r \<in> set (map top_part (produtos_top_clean df))" by simp
    then have "produto (top_part r) \<noteq> None \<and> quantidade_total (top_part r) \<noteq> None"
      unfolding 1 by simp
    then show "produto r \<noteq> None \<and> quantidade_total r \<noteq> None"
      by (simp add: top_part_def)
  qed
qed

theorem produtos_top_clean_rows_witness:
  "map top_part (produtos_top_clean (get_top_products 2 (Some demo_conn)))
     = get_top_products 2 (Some demo_conn)
   \<and> map valor_total_formatado (produtos_top_clean (get_top_products 2 (Some demo_conn)))
     = [''R$ 1.234,50'', ''-'']
   \<and> map quantidade_total (produtos_top_clean (get_top_products 2 (Some demo_conn)))
     = [Some 50, Some 30]"
  using produtos_top_clean_rows [of "get_top_products 2 (Some demo_conn)"]
  by (simp add: demo_top_products produtos_top_clean_eq dropna_produto_quantidade_def
      top_row.defs clean_row.defs format_1234_50)
     (simp add: valor_total_formatado_of_def)

text \<open>
  The claim C8 as it was stated fails on the seeded warehouse: the row of the product
  without a value reaches the ranking tab with its total value missing.
\<close>

theorem produtos_top_clean_keeps_missing_valor:
  "map valor_total (produtos_top_clean (get_top_products 2 (Some demo_conn)))
     = [Some (2469 / 2), None]"
  by (simp add: demo_top_products produtos_top_clean_eq dropna_produto_quantidade_def
      top_row.defs clean_row.defs)

subsection \<open>The stock analysis\<close>

lemma with_media_fields:
  "v_descricaoProduto (with_media v) = v_descricaoProduto v"
  "v_total_vendido (with_media v) = v_total_vendido v"
  "v_media_venda_dia (with_media v)
     = media_venda_dia_of (v_total_vendido v) (v_dias_com_venda v)"
  by (simp_all add: with_media_def vendas_resumo_row.defs vendas_media_row.defs)

lemma left_join_member:
  assumes "(v, po) \<in> set (left_join lower vs ps)"
  shows "v \<in> set vs"
    and "case po of None \<Rightarrow> \<forall>p\<in>set ps. \<not> join_on lower (v_descricaoProduto v) p
         | Some p \<Rightarrow> p \<in> set ps \<and> join_on lower (v_descricaoProduto v) p"
proof -
  obtain u where u: "u \<in> set vs"
    and m: "(v, po) \<in> set (case filter (join_on lower (v_descricaoProduto u)) ps of
                [] \<Rightarrow> [(u, None)] | m # ms \<Rightarrow> map (\<lambda>p. (u, Some p)) (m # ms))"
    using assms by (auto simp: left_join_def)
  show "v \<in> set vs"
    using u m by (auto split: list.splits)
  show "case po of None \<Rightarrow> \<forall>p\<in>set ps. \<not> join_on lower (v_descricaoProduto v) p
         | Some p \<Rightarrow> p \<in> set ps \<and> join_on lower (v_descricaoProduto v) p"
  proof (cases "filter (join_on lower (v_descricaoProduto u)) ps")
    case Nil
    then have "v = u" "po = None" using m by simp_all
    moreover have "\<forall>p\<in>set ps. \<not> join_on lower (v_descricaoProduto u) p"
      using Nil by (simp add: filter_empty_conv)
    ultimately show ?thesis by simp
  next
    case (Cons a as)
    then obtain p where p: "v = u" "po = Some p"
        "p \<in> set (filter (join_on lower (v_descricaoProduto u)) ps)"
      using m by auto
    then show ?thesis by simp
  qed
qed

lemma analyze_stock_rows:
  assumes "r \<in> set (analyze_stock n conn)"
  obtains c g po where "conn = Some c"
    and "g \<in> set (group_by product_name (filter where_dated (itens_venda_mm (tables c))))"
    and "r = stock_select (with_media (vendas_resumo_of g)) po"
    and "case po of None \<Rightarrow> \<forall>p\<in>set (produtos_mm (tables c)). \<not> join_on (sql_lower (tables c)) (fst g) p
         | Some p \<Rightarrow> p \<in> set (produtos_mm (tables c)) \<and> join_on (sql_lower (tables c)) (fst g) p"
proof -
  obtain c where c: "conn = Some c" and r1: "r \<in> set (analyze_stock n (Some c))"
    using assms by (cases conn) (simp_all add: analyze_stock_def)
  obtain vs where vs: "vendas_resumo n (tables c) = Inr vs"
    and r2: "r \<in> set (map (\<lambda>(v, p). stock_select v p)
                (left_join (sql_lower (tables c)) (vendas_com_media_dia vs)
                  (produtos_mm (tables c))))"
    using r1
    by (auto simp: analyze_stock_def read_sql_def stock_query_def order_by_desc_def
        split: option.splits sum.splits)
  obtain v po where vp: "(v, po) \<in> set (left_join (sql_lower (tables c)) (vendas_com_media_dia vs)
                  (produtos_mm (tables c)))"
    and r3: "r = stock_select v po"
    using r2 by auto
  have "v \<in> set (vendas_com_media_dia vs)"
    using left_join_member(1) [OF vp] .
  then obtain u where u: "u \<in> set vs" and v: "v = with_media u"
    by (auto simp: vendas_com_media_dia_def)
  have "u \<in> set (map vendas_resumo_of
      (group_by product_name (filter where_dated (itens_venda_mm (tables c)))))"
    using vs u
    by (auto simp: vendas_resumo_def sql_limit_def order_by_desc_def
        split: if_splits dest: in_set_takeD)
  then obtain g where g: "g \<in> set (group_by product_name (filter where_dated (itens_venda_mm (tables c))))"
    and ug: "u = vendas_resumo_of g"
    by auto
  have name: "v_descricaoProduto v = fst g"
    by (simp add: v ug with_media_fields vendas_resumo_of_def)
  have "case po of None \<Rightarrow> \<forall>p\<in>set (produtos_mm (tables c)). \<not> join_on (sql_lower (tables c)) (fst g) p
         | Some p \<Rightarrow> p \<in> set (produtos_mm (tables c)) \<and> join_on (sql_lower (tables c)) (fst g) p"
    using left_join_member(2) [OF vp] by (simp only: name)
  moreover have "r = stock_select (with_media (vendas_resumo_of g)) po"
    by (simp only: r3 v ug)
  ultimately show ?thesis
    using that [OF c g] by blast
qed

lemma stock_select_fields:
  "produto_e (stock_select v po) = v_descricaoProduto v"
  "total_vendido (stock_select v po) = v_total_vendido v"
  "media_venda_dia (stock_select v po) = v_media_venda_dia v"
  "status_estoque (stock_select v po)
     = (if Option.bind po p_id \<noteq> None then ''Em Estoque'' else ''Sem Estoque'')"
  "descricao_cadastro (stock_select v po) = Option.bind po descricao"
  "quantidade_estoque (stock_select v po) = Option.bind po estoque"
  "grupo_e (stock_select v po) = Option.bind po grupo"
  "codigo_fab_e (stock_select v po) = Option.bind po codigo_fab"
  "dias_estoque (stock_select v po)
     = (if Option.bind po p_id \<noteq> None \<and> Option.bind po estoque \<noteq> None
           \<and> sql_positive (v_media_venda_dia v)
        then sql_div (Option.bind po estoque) (v_media_venda_dia v) else None)"
  by (simp_all add: stock_select_def)

lemma status_Em_iff:
  "status_estoque (stock_select v po) = ''Em Estoque'' \<longleftrightarrow> Option.bind po p_id \<noteq> None"
  by (simp add: stock_select_fields)

lemma group_key:
  assumes "g \<in> set (group_by key rows)"
  shows "snd g = filter (\<lambda>r. key r = fst g) rows"
  using assms by (auto simp: group_by_def)

lemma join_on_iff:
  "join_on lower name p
   \<longleftrightarrow> map_option (\<lambda>d. lower (sql_trim d)) (descricao p) = Some (lower (sql_trim name))"
  by (cases "descricao p") (auto simp: join_on_def)

lemma seed_lower_trim:
  "seed_lower (sql_trim ''areia'') = ''areia''"
  "seed_lower (sql_trim '' cimento '') = ''cimento''"
  "seed_lower (sql_trim ''Areia '') = ''areia''"
  "seed_lower (sql_trim ''CIMENTO'') = ''cimento''"
  "seed_lower (sql_trim ''cal'') = ''cal''"
  "seed_lower (sql_trim ([CHR 0xC3, CHR 0x81] @ ''GUA SANITARIA''))
     = [CHR 0xC3, CHR 0xA1] @ ''gua sanitaria''"
  "seed_lower (sql_trim ('' '' @ [CHR 0xC3, CHR 0xA1] @ ''gua sanitaria''))
     = [CHR 0xC3, CHR 0xA1] @ ''gua sanitaria''"
  by (simp_all add: sql_trim_def lower_char_def latin1_lower_def)

lemma demo_vendas_resumo:
  "vendas_resumo 3 \<lparr>itens_venda_mm = demo_sales, produtos_mm = ps, sql_lower = lw\<rparr> =
     Inr [\<lparr>v_descricaoProduto = '' cimento '', v_total_vendido = Some 50,
           v_media_venda = Some 50, v_dias_com_venda = 1, v_num_vendas = 1\<rparr>,
          \<lparr>v_descricaoProduto = ''areia'', v_total_vendido = Some 30,
           v_media_venda = Some 30, v_dias_com_venda = 1, v_num_vendas = 1\<rparr>]"
  by (simp add: vendas_resumo_def sql_limit_def order_by_desc_def group_by_def demo_sales_def
      where_dated_def product_name_def vendas_resumo_of_def sql_sum_def sql_avg_def
      count_distinct_def desc_nulls_last_def)

lemma demo_analyze_stock:
  "analyze_stock 3 (Some demo_conn) =
     [\<lparr>produto_e = '' cimento '', total_vendido = Some 50, media_venda = Some 50,
       media_venda_dia = Some 50, num_vendas_e = 1, status_estoque = ''Sem Estoque'',
       descricao_cadastro = None, quantidade_estoque = None, grupo_e = None,
       codigo_fab_e = None, dias_estoque = None\<rparr>,
      \<lparr>produto_e = ''areia'', total_vendido = Some 30, media_venda = Some 30,
       media_venda_dia = Some 30, num_vendas_e = 1, status_estoque = ''Em Estoque'',
       descricao_cadastro = Some ''Areia '', quantidade_estoque = Some 60,
       grupo_e = Some ''agregados'', codigo_fab_e = None, dias_estoque = Some 2\<rparr>]"
  by (simp add: analyze_stock_def read_sql_def demo_conn_def stock_query_def
      demo_vendas_resumo vendas_com_media_dia_def with_media_def media_venda_dia_of_def sql_div_def
      left_join_def join_on_def demo_catalog_def seed_lower_trim stock_select_def
      vendas_resumo_row.defs vendas_media_row.defs sql_positive_def order_by_desc_def
      desc_nulls_last_def)

lemma null_id_analyze_stock:
  "analyze_stock 3 (Some null_id_conn) =
     [\<lparr>produto_e = '' cimento '', total_vendido = Some 50, media_venda = Some 50,
       media_venda_dia = Some 50, num_vendas_e = 1, status_estoque = ''Sem Estoque'',
       descricao_cadastro = Some ''CIMENTO'', quantidade_estoque = Some 100, grupo_e = None,
       codigo_fab_e = None, dias_estoque = None\<rparr>,
      \<lparr>produto_e = ''areia'', total_vendido = Some 30, media_venda = Some 30,
       media_venda_dia = Some 30, num_vendas_e = 1, status_estoque = ''Sem Estoque'',
       descricao_cadastro = None, quantidade_estoque = None,
       grupo_e = None, codigo_fab_e = None, dias_estoque = None\<rparr>]"
  by (simp add: analyze_stock_def read_sql_def null_id_conn_def stock_query_def
      demo_vendas_resumo vendas_com_media_dia_def with_media_def media_venda_dia_of_def sql_div_def
      left_join_def join_on_def null_id_catalog_def seed_lower_trim stock_select_def
      vendas_resumo_row.defs vendas_media_row.defs sql_positive_def order_by_desc_def
      desc_nulls_last_def)

lemma accent_analyze_stock:
  "analyze_stock 3 (Some accent_conn) =
     [\<lparr>produto_e = [CHR 0xC3, CHR 0x81] @ ''GUA SANITARIA'', total_vendido = Some 12,
       media_venda = Some 12, media_venda_dia = Some 12, num_vendas_e = 1,
       status_estoque = ''Em Estoque'',
       descricao_cadastro = Some ('' '' @ [CHR 0xC3, CHR 0xA1] @ ''gua sanitaria''),
       quantidade_estoque = Some 24, grupo_e = Some ''limpeza'',
       codigo_fab_e = Some ''AS1'', dias_estoque = Some 2\<rparr>,
      \<lparr>produto_e = ''cal'', total_vendido = Some 5, media_venda = Some 5,
       media_venda_dia = Some 5, num_vendas_e = 1, status_estoque = ''Sem Estoque'',
       descricao_cadastro = None, quantidade_estoque = None, grupo_e = None,
       codigo_fab_e = None, dias_estoque = None\<rparr>]"
proof -
  have vs: "vendas_resumo 3 (tables accent_conn) =
     Inr [\<lparr>v_descricaoProduto = [CHR 0xC3, CHR 0x81] @ ''GUA SANITARIA'',
           v_total_vendido = Some 12, v_media_venda = Some 12, v_dias_com_venda = 1,
           v_num_vendas = 1\<rparr>,
          \<lparr>v_descricaoProduto = ''cal'', v_total_vendido = Some 5,
           v_media_venda = Some 5, v_dias_com_venda = 1, v_num_vendas = 1\<rparr>]"
    by (simp add: accent_conn_def vendas_resumo_def sql_limit_def order_by_desc_def
        group_by_def accent_sales_def where_dated_def product_name_def vendas_resumo_of_def
        sql_sum_def sql_avg_def count_distinct_def desc_nulls_last_def)
  have lw: "sql_lower (tables accent_conn) = seed_lower"
    "produtos_mm (tables accent_conn) = accent_catalog" "query_fault accent_conn = None"
    by (simp_all add: accent_conn_def)
  show ?thesis
    using seed_lower_trim(5,6,7)
    by (simp add: analyze_stock_def read_sql_def stock_query_def vs lw
        vendas_com_media_dia_def with_media_def media_venda_dia_of_def sql_div_def
        left_join_def join_on_def accent_catalog_def stock_select_def
        vendas_resumo_row.defs vendas_media_row.defs sql_positive_def order_by_desc_def
        desc_nulls_last_def)
qed

text \<open>
  C1, as the code has it: every returned record is the join of a sale product with
  either no catalog entry, when no entry's trimmed, lower-cased description equals the
  trimmed, lower-cased product name, or with one entry whose description does, and the
  record is \<^verbatim>\<open>Em Estoque\<close> if and only if it is joined to an entry that has an id
  (the status tests \<^verbatim>\<open>p.id IS NOT NULL\<close>). So when every entry that matches the
  product has an id, the record is \<^verbatim>\<open>Em Estoque\<close> if and only if a matching entry
  exists; and a record with no matching entry is \<^verbatim>\<open>Sem Estoque\<close> with all its
  catalog columns \<open>NULL\<close>. The case folding is the warehouse's, whatever it is.
\<close>

theorem analyze_stock_status:
  assumes "r \<in> set (analyze_stock n (Some c))"
  shows
    "(\<exists>po. (case po of
              None \<Rightarrow>
                \<not> (\<exists>p\<in>set (produtos_mm (tables c)).
                      map_option (\<lambda>d. sql_lower (tables c) (sql_trim d)) (descricao p)
                        = Some (sql_lower (tables c) (sql_trim (produto_e r))))
            | Some p \<Rightarrow>
                p \<in> set (produtos_mm (tables c))
                \<and> map_option (\<lambda>d. sql_lower (tables c) (sql_trim d)) (descricao p)
                    = Some (sql_lower (tables c) (sql_trim (produto_e r)))
                \<and> descricao_cadastro r = descricao p \<and> quantidade_estoque r = estoque p
                \<and> grupo_e r = grupo p \<and> codigo_fab_e r = codigo_fab p)
          \<and> (status_estoque r = ''Em Estoque'' \<longleftrightarrow> (\<exists>p. po = Some p \<and> p_id p \<noteq> None)))
     \<and> ((\<forall>p\<in>set (produtos_mm (tables c)).
            map_option (\<lambda>d. sql_lower (tables c) (sql_trim d)) (descricao p)
              = Some (sql_lower (tables c) (sql_trim (produto_e r)))
            \<longrightarrow> p_id p \<noteq> None)
          \<longrightarrow> (status_estoque r = ''Em Estoque''
                \<longleftrightarrow> (\<exists>p\<in>set (produtos_mm (tables c)).
                       map_option (\<lambda>d. sql_lower (tables c) (sql_trim d)) (descricao p)
                         = Some (sql_lower (tables c) (sql_trim (produto_e r))))))
     \<and> (\<not> (\<exists>p\<in>set (produtos_mm (tables c)).
              map_option (\<lambda>d. sql_lower (tables c) (sql_trim d)) (descricao p)
                = Some (sql_lower (tables c) (sql_trim (produto_e r))))
          \<longrightarrow> status_estoque r = ''Sem Estoque'' \<and> descricao_cadastro r = None
              \<and> quantidade_estoque r = None \<and> grupo_e r = None \<and> codigo_fab_e r = None
              \<and> dias_estoque r = None)"
proof -
  define M where "M p \<longleftrightarrow>
      map_option (\<lambda>d. sql_lower (tables c) (sql_trim d)) (descricao p)
        = Some (sql_lower (tables c) (sql_trim (produto_e r)))" for p :: catalog_item
  obtain c' g po where c': "Some c = Some c'"
    and r: "r = stock_select (with_media (vendas_resumo_of g)) po"
    and j: "case po of
              None \<Rightarrow> \<forall>p\<in>set (produtos_mm (tables c')). \<not> join_on (sql_lower (tables c')) (fst g) p
            | Some p \<Rightarrow> p \<in> set (produtos_mm (tables c'))
                \<and> join_on (sql_lower (tables c')) (fst g) p"
    using assms by (rule analyze_stock_rows)
  have name: "produto_e r = fst g"
    by (simp add: r stock_select_fields with_media_fields vendas_resumo_of_def)
  have cc: "c' = c" using c' by simp
  have jm: "join_on (sql_lower (tables c)) (fst g) p \<longleftrightarrow> M p" for p
    unfolding M_def name by (rule join_on_iff)
  have main: "(\<exists>po. (case po of
              None \<Rightarrow> \<not> (\<exists>p\<in>set (produtos_mm (tables c)). M p)
            | Some p \<Rightarrow> p \<in> set (produtos_mm (tables c)) \<and> M p
                \<and> descricao_cadastro r = descricao p \<and> quantidade_estoque r = estoque p
                \<and> grupo_e r = grupo p \<and> codigo_fab_e r = codigo_fab p)
          \<and> (status_estoque r = ''Em Estoque'' \<longleftrightarrow> (\<exists>p. po = Some p \<and> p_id p \<noteq> None)))
     \<and> ((\<forall>p\<in>set (produtos_mm (tables c)). M p \<longrightarrow> p_id p \<noteq> None)
          \<longrightarrow> (status_estoque r = ''Em Estoque''
                \<longleftrightarrow> (\<exists>p\<in>set (produtos_mm (tables c)). M p)))
     \<and> (\<not> (\<exists>p\<in>set (produtos_mm (tables c)). M p)
          \<longrightarrow> status_estoque r = ''Sem Estoque'' \<and> descricao_cadastro r = None
              \<and> quantidade_estoque r = None \<and> grupo_e r = None \<and> codigo_fab_e r = None
              \<and> dias_estoque r = None)"
  proof (cases po)
    case None
    have no: "\<not> (\<exists>p\<in>set (produtos_mm (tables c)). M p)"
      using j by (simp add: None cc jm)
    have nulls: "status_estoque r = ''Sem Estoque''" "descricao_cadastro r = None"
      "quantidade_estoque r = None" "grupo_e r = None" "codigo_fab_e r = None"
      "dias_estoque r = None"
      by (simp_all add: r None stock_select_fields)
    have "(case None :: catalog_item option of
              None \<Rightarrow> \<not> (\<exists>p\<in>set (produtos_mm (tables c)). M p)
            | Some p \<Rightarrow> p \<in> set (produtos_mm (tables c)) \<and> M p
                \<and> descricao_cadastro r = descricao p \<and> quantidade_estoque r = estoque p
                \<and> grupo_e r = grupo p \<and> codigo_fab_e r = codigo_fab p)
          \<and> (status_estoque r = ''Em Estoque''
              \<longleftrightarrow> (\<exists>p. (None :: catalog_item option) = Some p \<and> p_id p \<noteq> None))"
      using no nulls(1) by simp
    then show ?thesis using no nulls by blast
  next
    case (Some p)
    have p: "p \<in> set (produtos_mm (tables c))" "M p"
      using j by (simp_all add: Some cc jm)
    have f: "descricao_cadastro r = descricao p" "quantidade_estoque r = estoque p"
      "grupo_e r = grupo p" "codigo_fab_e r = codigo_fab p"
      by (simp_all add: r Some stock_select_fields)
    have st: "status_estoque r = ''Em Estoque'' \<longleftrightarrow> p_id p \<noteq> None"
      by (simp add: r Some status_Em_iff)
    have "(case Some p of
              None \<Rightarrow> \<not> (\<exists>p\<in>set (produtos_mm (tables c)). M p)
            | Some p \<Rightarrow> p \<in> set (produtos_mm (tables c)) \<and> M p
                \<and> descricao_cadastro r = descricao p \<and> quantidade_estoque r = estoque p
                \<and> grupo_e r = grupo p \<and> codigo_fab_e r = codigo_fab p)
          \<and> (status_estoque r = ''Em Estoque''
              \<longleftrightarrow> (\<exists>q. Some p = Some q \<and> p_id q \<noteq> None))"
      using p f st by simp
    then show ?thesis using p st by blast
  qed
  show ?thesis using main unfolding M_def .
qed

theorem analyze_stock_status_witness:
  "analyze_stock 3 (Some accent_conn) ! 0 \<in> set (analyze_stock 3 (Some accent_conn))
   \<and> produto_e (analyze_stock 3 (Some accent_conn) ! 0)
      = [CHR 0xC3, CHR 0x81] @ ''GUA SANITARIA''
   \<and> status_estoque (analyze_stock 3 (Some accent_conn) ! 0) = ''Em Estoque''
   \<and> produtos_mm (tables accent_conn)
      = [\<lparr>p_id = Some 3, descricao = Some ('' '' @ [CHR 0xC3, CHR 0xA1] @ ''gua sanitaria''),
          estoque = Some 24, grupo = Some ''limpeza'', codigo_fab = Some ''AS1''\<rparr>]
   \<and> sql_lower (tables accent_conn)
        (sql_trim ('' '' @ [CHR 0xC3, CHR 0xA1] @ ''gua sanitaria''))
      = sql_lower (tables accent_conn) (sql_trim ([CHR 0xC3, CHR 0x81] @ ''GUA SANITARIA''))
   \<and> produto_e (analyze_stock 3 (Some accent_conn) ! 1) = ''cal''
   \<and> status_estoque (analyze_stock 3 (Some accent_conn) ! 1) = ''Sem Estoque''"
proof -
  have mem: "analyze_stock 3 (Some accent_conn) ! 0 \<in> set (analyze_stock 3 (Some accent_conn))"
    by (simp add: accent_analyze_stock)
  have cat: "produtos_mm (tables accent_conn)
      = [\<lparr>p_id = Some 3, descricao = Some ('' '' @ [CHR 0xC3, CHR 0xA1] @ ''gua sanitaria''),
          estoque = Some 24, grupo = Some ''limpeza'', codigo_fab = Some ''AS1''\<rparr>]"
    by (simp add: accent_conn_def accent_catalog_def)
  have fold: "sql_lower (tables accent_conn)
        (sql_trim ('' '' @ [CHR 0xC3, CHR 0xA1] @ ''gua sanitaria''))
      = sql_lower (tables accent_conn) (sql_trim ([CHR 0xC3, CHR 0x81] @ ''GUA SANITARIA''))"
    using seed_lower_trim(6,7) by (simp add: accent_conn_def)
  have rows: "produto_e (analyze_stock 3 (Some accent_conn) ! 0)
      = [CHR 0xC3, CHR 0x81] @ ''GUA SANITARIA''"
    "status_estoque (analyze_stock 3 (Some accent_conn) ! 0) = ''Em Estoque''"
    "produto_e (analyze_stock 3 (Some accent_conn) ! 1) = ''cal''"
    "status_estoque (analyze_stock 3 (Some accent_conn) ! 1) = ''Sem Estoque''"
    by (simp_all add: accent_analyze_stock)
  show ?thesis
    using analyze_stock_status [OF mem] mem cat fold rows by blast
qed

text \<open>
  The claim C1 as it was stated fails for a catalog entry without an id: the product
  matches the entry, carries its description, and is \<^verbatim>\<open>Sem Estoque\<close>.
\<close>

theorem analyze_stock_null_id_status:
  "map produto_e (analyze_stock 3 (Some null_id_conn)) = ['' cimento '', ''areia'']
   \<and> map status_estoque (analyze_stock 3 (Some null_id_conn))
      = [''Sem Estoque'', ''Sem Estoque'']
   \<and> map descricao_cadastro (analyze_stock 3 (Some null_id_conn)) = [Some ''CIMENTO'', None]
   \<and> produtos_mm (tables null_id_conn)
      = [\<lparr>p_id = None, descricao = Some ''CIMENTO'', estoque = Some 100,
          grupo = None, codigo_fab = None\<rparr>]
   \<and> sql_lower (tables null_id_conn) (sql_trim ''CIMENTO'')
      = sql_lower (tables null_id_conn) (sql_trim '' cimento '')"
  by (simp add: null_id_analyze_stock)
     (simp add: null_id_conn_def null_id_catalog_def seed_lower_trim)

text \<open>
  C3, as the code has it: \<^verbatim>\<open>dias_estoque\<close> is \<open>NULL\<close> whenever the daily average is
  not positive, the stock quantity is absent, or the record is not \<^verbatim>\<open>Em Estoque\<close>
  (its catalog row has no id); otherwise it is the stock quantity divided by the daily
  average.
\<close>

theorem analyze_stock_dias_estoque:
  assumes "r \<in> set (analyze_stock n conn)"
  shows "((\<exists>a. media_venda_dia r = Some a \<and> a \<le> 0) \<or> quantidade_estoque r = None
           \<or> status_estoque r \<noteq> ''Em Estoque'' \<longrightarrow> dias_estoque r = None)
    \<and> (status_estoque r = ''Em Estoque'' \<and> quantidade_estoque r \<noteq> None
          \<and> \<not> (\<exists>a. media_venda_dia r = Some a \<and> a \<le> 0)
        \<longrightarrow> dias_estoque r = sql_div (quantidade_estoque r) (media_venda_dia r))
    \<and> (status_estoque r = ''Em Estoque'' \<and> quantidade_estoque r = Some s
          \<and> media_venda_dia r = Some a \<and> 0 < a
        \<longrightarrow> dias_estoque r = Some (s / a))"
proof -
  obtain c g po where r: "r = stock_select (with_media (vendas_resumo_of g)) po"
    using assms by (rule analyze_stock_rows)
  show ?thesis
    unfolding r stock_select_fields
    by (auto simp: sql_positive_def sql_div_def split: option.splits)
qed

theorem analyze_stock_dias_estoque_witness:
  "analyze_stock 3 (Some demo_conn) ! 1 \<in> set (analyze_stock 3 (Some demo_conn))
   \<and> status_estoque (analyze_stock 3 (Some demo_conn) ! 1) = ''Em Estoque''
   \<and> quantidade_estoque (analyze_stock 3 (Some demo_conn) ! 1) = Some 60
   \<and> media_venda_dia (analyze_stock 3 (Some demo_conn) ! 1) = Some 30
   \<and> dias_estoque (analyze_stock 3 (Some demo_conn) ! 1) = Some (60 / 30)
   \<and> quantidade_estoque (analyze_stock 3 (Some demo_conn) ! 0) = None
   \<and> dias_estoque (analyze_stock 3 (Some demo_conn) ! 0) = None"
proof -
  have mem: "analyze_stock 3 (Some demo_conn) ! 1 \<in> set (analyze_stock 3 (Some demo_conn))"
    by (simp add: demo_analyze_stock)
  show ?thesis
    using analyze_stock_dias_estoque [OF mem, of 60 30] mem
    by (simp add: demo_analyze_stock)
qed

text \<open>
  The claim C3 as it was stated fails for a catalog entry without an id: the stock
  quantity 100 and the daily average 50 are both present, and \<^verbatim>\<open>dias_estoque\<close> is
  \<open>NULL\<close>, not 2.
\<close>

theorem analyze_stock_null_id_dias_estoque:
  "map media_venda_dia (analyze_stock 3 (Some null_id_conn)) = [Some 50, Some 30]
   \<and> map quantidade_estoque (analyze_stock 3 (Some null_id_conn)) = [Some 100, None]
   \<and> map dias_estoque (analyze_stock 3 (Some null_id_conn)) = [None, None]"
  by (simp add: null_id_analyze_stock)

lemma set_non_null: "set (non_null vs) = {y. Some y \<in> set vs}"
  by (induction vs rule: non_null.induct) auto

lemma count_distinct_card: "count_distinct vs = card {y. Some y \<in> set vs}"
  by (simp add: count_distinct_def length_remdups_card_conv set_non_null)

lemma sale_days_iff:
  "d \<in> sale_days name w
   \<longleftrightarrow> (\<exists>x\<in>set (itens_venda_mm w). \<exists>t. data x = Some t \<and> descricaoProduto x = Some name
          \<and> d = (ts_year t, ts_month t, ts_day t))"
proof -
  have one: "d \<in> set (case data x of
                       None \<Rightarrow> []
                     | Some t \<Rightarrow>
                         if descricaoProduto x = Some name
                         then [(ts_year t, ts_month t, ts_day t)] else [])
      \<longleftrightarrow> (\<exists>t. data x = Some t \<and> descricaoProduto x = Some name
            \<and> d = (ts_year t, ts_month t, ts_day t))" for x :: sale_item
    by (cases "data x") auto
  show ?thesis
    unfolding sale_days_def set_concat set_map by (simp only: UN_iff image_iff one bex_simps)
qed

lemma group_sale_days:
  "{y. Some y \<in> set (map (\<lambda>r. map_option sql_date (data r))
                    (filter (\<lambda>r. product_name r = name) (filter where_dated (itens_venda_mm w))))}
   = sale_days name w"
proof (rule set_eqI)
  fix d
  have "Some d \<in> set (map (\<lambda>r. map_option sql_date (data r))
                    (filter (\<lambda>r. product_name r = name) (filter where_dated (itens_venda_mm w))))
      \<longleftrightarrow> (\<exists>x\<in>set (itens_venda_mm w). product_name x = name \<and> where_dated x
            \<and> map_option sql_date (data x) = Some d)"
    by (auto simp: image_iff eq_commute [of "Some d"])
  also have "\<dots> \<longleftrightarrow> (\<exists>x\<in>set (itens_venda_mm w). \<exists>t. data x = Some t
        \<and> descricaoProduto x = Some name \<and> d = (ts_year t, ts_month t, ts_day t))"
    by (rule bex_cong [OF refl])
       (auto simp: where_dated_def product_name_def sql_date_def split: option.splits)
  finally show "d \<in> {y. Some y \<in> set (map (\<lambda>r. map_option sql_date (data r))
                    (filter (\<lambda>r. product_name r = name) (filter where_dated (itens_venda_mm w))))}
      \<longleftrightarrow> d \<in> sale_days name w"
    by (simp add: sale_days_iff)
qed

lemma group_days:
  assumes "g \<in> set (group_by product_name (filter where_dated (itens_venda_mm w)))"
  shows "v_dias_com_venda (vendas_resumo_of g) = distinct_sale_days (fst g) w"
    and "0 < distinct_sale_days (fst g) w"
    and "v_total_vendido (vendas_resumo_of g)
      = sql_sum (map qtde (filter (\<lambda>x. descricaoProduto x = Some (fst g) \<and> data x \<noteq> None)
                            (itens_venda_mm w)))"
proof -
  have rows: "snd g = filter (\<lambda>r. product_name r = fst g) (filter where_dated (itens_venda_mm w))"
    using assms by (rule group_key)
  show days: "v_dias_com_venda (vendas_resumo_of g) = distinct_sale_days (fst g) w"
    by (simp only: vendas_resumo_of_def vendas_resumo_row.simps count_distinct_card rows
        group_sale_days distinct_sale_days_def)
  obtain x where x: "x \<in> set (snd g)"
    using group_by_member(1) [OF assms] by (cases "snd g") auto
  then have "product_name x = fst g" "where_dated x" "x \<in> set (itens_venda_mm w)"
    unfolding rows by simp_all
  then obtain t where "data x = Some t" "descricaoProduto x = Some (fst g)"
    by (auto simp: where_dated_def product_name_def)
  then have "(ts_year t, ts_month t, ts_day t) \<in> sale_days (fst g) w"
    using \<open>x \<in> set (itens_venda_mm w)\<close> unfolding sale_days_iff by blast
  moreover have "finite (sale_days (fst g) w)"
    unfolding sale_days_def by (rule finite_set)
  ultimately show "0 < distinct_sale_days (fst g) w"
    unfolding distinct_sale_days_def by (auto simp: card_gt_0_iff)
  have "filter (\<lambda>r. product_name r = fst g) (filter where_dated (itens_venda_mm w))
      = filter (\<lambda>x. descricaoProduto x = Some (fst g) \<and> data x \<noteq> None) (itens_venda_mm w)"
    by (auto simp: where_dated_def product_name_def intro!: filter_cong split: option.splits)
  then show "v_total_vendido (vendas_resumo_of g)
      = sql_sum (map qtde (filter (\<lambda>x. descricaoProduto x = Some (fst g) \<and> data x \<noteq> None)
                            (itens_venda_mm w)))"
    by (simp add: vendas_resumo_of_def rows)
qed

lemma days_analyze_stock:
  "analyze_stock 3 (Some days_conn) =
     [\<lparr>produto_e = ''areia'', total_vendido = Some 90, media_venda = Some 30,
       media_venda_dia = Some 45, num_vendas_e = 3, status_estoque = ''Sem Estoque'',
       descricao_cadastro = None, quantidade_estoque = None, grupo_e = None,
       codigo_fab_e = None, dias_estoque = None\<rparr>]"
  by (simp add: analyze_stock_def read_sql_def days_conn_def stock_query_def
      vendas_resumo_def sql_limit_def order_by_desc_def group_by_def days_sales_def
      where_dated_def product_name_def vendas_resumo_of_def sql_sum_def sql_avg_def
      count_distinct_def sql_date_def desc_nulls_last_def
      vendas_com_media_dia_def with_media_def media_venda_dia_of_def sql_div_def
      left_join_def stock_select_def
      vendas_resumo_row.defs vendas_media_row.defs sql_positive_def)

lemma days_sale_days: "distinct_sale_days ''areia'' (tables days_conn) = 2"
  by (simp add: distinct_sale_days_def sale_days_def days_conn_def days_sales_def
      List.card_set)

lemma ninety_analyze_stock: "analyze_stock 3 (Some ninety_conn) = []"
  by (simp add: analyze_stock_def read_sql_def ninety_conn_def stock_query_def
      vendas_resumo_def sql_limit_def order_by_desc_def group_by_def ninety_sales_def
      where_dated_def vendas_com_media_dia_def left_join_def)

text \<open>
  C4, as the code has it: every record of \<^verbatim>\<open>analyze_stock\<close> is of a product with at
  least one distinct sale day, its total is the sum over the product's dated sale lines,
  and its daily average is that total divided by the number of distinct sale days. The
  other branch of the \<^verbatim>\<open>CASE\<close>, the total divided by 30 (3 for a total of 90), is for
  no sale day, which no record has: only dated sale lines are aggregated.
\<close>

theorem analyze_stock_media_venda_dia:
  assumes "r \<in> set (analyze_stock n (Some c))"
  shows "0 < distinct_sale_days (produto_e r) (tables c)
    \<and> total_vendido r
        = sql_sum (map qtde (filter (\<lambda>x. descricaoProduto x = Some (produto_e r) \<and> data x \<noteq> None)
                              (itens_venda_mm (tables c))))
    \<and> media_venda_dia r
        = sql_div (total_vendido r)
            (Some (of_nat (distinct_sale_days (produto_e r) (tables c))))
    \<and> (total_vendido r = Some tv
        \<longrightarrow> media_venda_dia r = Some (tv / of_nat (distinct_sale_days (produto_e r) (tables c))))
    \<and> media_venda_dia_of (total_vendido r) 0 = sql_div (total_vendido r) (Some 30)
    \<and> media_venda_dia_of (Some 90) 0 = Some 3"
proof -
  obtain c' g po where c': "Some c = Some c'"
    and g: "g \<in> set (group_by product_name (filter where_dated (itens_venda_mm (tables c'))))"
    and r: "r = stock_select (with_media (vendas_resumo_of g)) po"
    using assms by (rule analyze_stock_rows)
  have cc: "c' = c" using c' by simp
  have name: "produto_e r = fst g"
    by (simp add: r stock_select_fields with_media_fields vendas_resumo_of_def)
  have tot: "total_vendido r = v_total_vendido (vendas_resumo_of g)"
    by (simp add: r stock_select_fields with_media_fields)
  have pos: "0 < distinct_sale_days (produto_e r) (tables c)"
    using group_days(2) [OF g] by (simp add: name cc)
  have sum: "total_vendido r
        = sql_sum (map qtde (filter (\<lambda>x. descricaoProduto x = Some (produto_e r) \<and> data x \<noteq> None)
                              (itens_venda_mm (tables c))))"
    using group_days(3) [OF g] by (simp add: name cc tot)
  have "media_venda_dia r
      = media_venda_dia_of (v_total_vendido (vendas_resumo_of g))
          (v_dias_com_venda (vendas_resumo_of g))"
    by (simp add: r stock_select_fields with_media_fields)
  then have "media_venda_dia r
      = media_venda_dia_of (total_vendido r) (distinct_sale_days (produto_e r) (tables c))"
    by (simp only: group_days(1) [OF g] name tot cc)
  then have avg: "media_venda_dia r
        = sql_div (total_vendido r)
            (Some (of_nat (distinct_sale_days (produto_e r) (tables c))))"
    using pos by (simp add: media_venda_dia_of_def)
  have some: "total_vendido r = Some tv
        \<longrightarrow> media_venda_dia r = Some (tv / of_nat (distinct_sale_days (produto_e r) (tables c)))"
    using pos by (simp add: avg sql_div_def)
  have "media_venda_dia_of (total_vendido r) 0 = sql_div (total_vendido r) (Some 30)"
    "media_venda_dia_of (Some 90) 0 = Some 3"
    by (simp_all add: media_venda_dia_of_def sql_div_def)
  with pos sum avg some show ?thesis by blast
qed

theorem analyze_stock_media_venda_dia_witness:
  "analyze_stock 3 (Some days_conn) ! 0 \<in> set (analyze_stock 3 (Some days_conn))
   \<and> produto_e (analyze_stock 3 (Some days_conn) ! 0) = ''areia''
   \<and> map qtde (itens_venda_mm (tables days_conn)) = [Some 10, Some 20, Some 60]
   \<and> distinct_sale_days ''areia'' (tables days_conn) = 2
   \<and> total_vendido (analyze_stock 3 (Some days_conn) ! 0) = Some 90
   \<and> media_venda_dia (analyze_stock 3 (Some days_conn) ! 0) = Some (90 / 2)"
proof -
  have mem: "analyze_stock 3 (Some days_conn) ! 0 \<in> set (analyze_stock 3 (Some days_conn))"
    by (simp add: days_analyze_stock)
  have rows: "produto_e (analyze_stock 3 (Some days_conn) ! 0) = ''areia''"
    "total_vendido (analyze_stock 3 (Some days_conn) ! 0) = Some 90"
    by (simp_all add: days_analyze_stock)
  have lines: "map qtde (itens_venda_mm (tables days_conn)) = [Some 10, Some 20, Some 60]"
    by (simp add: days_conn_def days_sales_def)
  show ?thesis
    using analyze_stock_media_venda_dia [OF mem, of 90] mem rows lines days_sale_days
    by (simp add: sql_div_def)
qed

text \<open>
  The claim C4 as it was stated fails for a product with no sale day: the product sold
  90 in a line without a date gets no record, so no daily average of 3.
\<close>

theorem analyze_stock_no_sale_day:
  "map descricaoProduto (itens_venda_mm (tables ninety_conn)) = [Some ''brita'']
   \<and> map qtde (itens_venda_mm (tables ninety_conn)) = [Some 90]
   \<and> distinct_sale_days ''brita'' (tables ninety_conn) = 0
   \<and> analyze_stock 3 (Some ninety_conn) = []"
  by (simp add: ninety_analyze_stock)
     (simp add: ninety_conn_def ninety_sales_def distinct_sale_days_def sale_days_def)

subsection \<open>The seasonality fallback\<close>

lemma collect_Inr: "collect xs = Inr ys \<Longrightarrow> xs = map Inr ys"
proof (induction xs arbitrary: ys rule: collect.induct)
  case 1
  then show ?case by simp
next
  case (2 e xs)
  then show ?case by simp
next
  case (3 x xs)
  then show ?case by (auto split: sum.splits)
qed

lemma collect_map_Inr: "collect (map Inr ys) = Inr ys"
  by (induction ys) simp_all

lemma mes_row_of_fields:
  "produto_a (mes_row_of r m) = produto_a r"
  "vendaId_a (mes_row_of r m) = vendaId_a r"
  "quantidade_a (mes_row_of r m) = quantidade_a r"
  "mes_num (mes_row_of r m) = m"
  "mes_a (mes_row_of r m) = ''2024-'' @ pad2 (nat m)"
  by (simp_all add: mes_row_of_def alt_row.defs mes_row.defs)

lemma mes_num_cell_Inr:
  "mes_num_cell venda mx = Inr k
   \<longleftrightarrow> (\<exists>v m. venda = Some v \<and> mx = Some m \<and> m \<noteq> 0 \<and> k = mes_num_of v m)"
  by (auto simp: mes_num_cell_def split: option.splits)

lemma add_mes_rows:
  assumes "add_mes df = Inr rows" and "r \<in> set rows"
  shows "\<exists>v m. vendaId_a r = Some v \<and> max_venda_of df = Some m \<and> m \<noteq> 0
          \<and> mes_num r = mes_num_of v m \<and> mes_a r = ''2024-'' @ pad2 (nat (mes_num r))
          \<and> (\<exists>a\<in>set df. produto_a r = produto_a a)"
proof -
  have "map (\<lambda>r. case mes_num_cell (vendaId_a r) (max_venda_of df) of
                    Inl e \<Rightarrow> Inl e | Inr m \<Rightarrow> Inr (mes_row_of r m)) df = map Inr rows"
    using assms(1) unfolding add_mes_def by (rule collect_Inr)
  then have "Inr r \<in> set (map (\<lambda>r. case mes_num_cell (vendaId_a r) (max_venda_of df) of
                    Inl e \<Rightarrow> Inl e | Inr m \<Rightarrow> Inr (mes_row_of r m)) df)"
    using assms(2) by simp
  then obtain a where a: "a \<in> set df"
    and "Inr r = (case mes_num_cell (vendaId_a a) (max_venda_of df) of
                    Inl e \<Rightarrow> Inl e | Inr m \<Rightarrow> Inr (mes_row_of a m))"
    by auto
  then obtain k where k: "mes_num_cell (vendaId_a a) (max_venda_of df) = Inr k"
    and r: "r = mes_row_of a k"
    by (auto split: sum.splits)
  from k obtain v m where "vendaId_a a = Some v" "max_venda_of df = Some m" "m \<noteq> 0"
    "k = mes_num_of v m"
    unfolding mes_num_cell_Inr by blast
  then show ?thesis using a by (auto simp: r mes_row_of_fields)
qed

lemma add_mes_total:
  assumes "\<forall>r\<in>set df. vendaId_a r \<noteq> None" and "max_venda_of df = Some m" and "m \<noteq> 0"
  shows "add_mes df = Inr (map (\<lambda>r. mes_row_of r (mes_num_of (the (vendaId_a r)) m)) df)"
proof -
  have "map (\<lambda>r. case mes_num_cell (vendaId_a r) (max_venda_of df) of
                    Inl e \<Rightarrow> Inl e | Inr m \<Rightarrow> Inr (mes_row_of r m)) df
      = map Inr (map (\<lambda>r. mes_row_of r (mes_num_of (the (vendaId_a r)) m)) df)"
    using assms by (auto simp: mes_num_cell_def)
  then show ?thesis
    unfolding add_mes_def by (simp only: collect_map_Inr)
qed

lemma mes_num_of_range: "1 \<le> mes_num_of v m \<and> mes_num_of v m \<le> 12"
proof -
  have "0 \<le> astype_int (of_int v / of_int m * 12) mod 12"
       "astype_int (of_int v / of_int m * 12) mod 12 < 12"
    by simp_all
  then show ?thesis unfolding mes_num_of_def by linarith
qed

lemma mes_num_of_floor:
  assumes "0 \<le> (of_int v / of_int m :: rat)"
  shows "mes_num_of v m = bucket_spec v m"
proof -
  have "0 \<le> (of_int v / of_int m * 12 :: rat)"
    using assms by (intro mult_nonneg_nonneg) simp_all
  then show ?thesis by (simp add: mes_num_of_def bucket_spec_def astype_int_def)
qed

lemma groupby_sum_rows:
  assumes "s \<in> set (groupby_sum rows)"
  shows "\<exists>r\<in>set rows. mes s = mes_a r \<and> produto_s s = produto_a r"
proof -
  obtain g where g: "g \<in> set (group_by (\<lambda>r. (produto_a r, mes_a r)) rows)"
    and s: "produto_s s = fst (fst g)" "mes s = snd (fst g)"
    using assms by (auto simp: groupby_sum_def)
  from g obtain r where "r \<in> set rows" "fst g = (produto_a r, mes_a r)"
    by (auto simp: group_by_def)
  then show ?thesis using s by auto
qed

lemma fallback_month_keys:
  assumes "read_sql (seasonality_query n) c = Inr []"
    and "s \<in> set (get_seasonality_data n (Some c))"
  shows "\<exists>k. 1 \<le> k \<and> k \<le> 12 \<and> mes s = ''2024-'' @ pad2 k"
proof -
  have "\<exists>df out. read_sql (seasonality_alt_query n) c = Inr df
      \<and> seasonality_fallback df = Inr out \<and> s \<in> set out"
    using assms
    by (simp add: get_seasonality_data_def get_seasonality_data_try_def split: sum.splits)
       metis
  then obtain df out where out: "seasonality_fallback df = Inr out" "s \<in> set out"
    by blast
  then obtain rows where rows: "add_mes df = Inr rows" and "out = groupby_sum rows"
    by (auto simp: seasonality_fallback_def split: if_splits sum.splits)
  then obtain r where r: "r \<in> set rows" "mes s = mes_a r"
    using out(2) groupby_sum_rows by metis
  obtain v m where "mes_num r = mes_num_of v m" "mes_a r = ''2024-'' @ pad2 (nat (mes_num r))"
    using add_mes_rows [OF rows r(1)] by blast
  moreover have "1 \<le> nat (mes_num_of v m) \<and> nat (mes_num_of v m) \<le> 12"
    using mes_num_of_range [of v m] by linarith
  ultimately show ?thesis using r(2) by auto
qed

lemma pad2_small:
  "pad2 (Suc 0) = ''01''" "pad2 4 = ''04''" "pad2 7 = ''07''" "pad2 12 = ''12''"
  by (simp_all add: pad2_def decimal_small decimal_big digit_char_def)

lemma minus_six_fifths: "\<lceil>- (6 / 5) :: rat\<rceil> = - 1" "\<lfloor>- (6 / 5) :: rat\<rfloor> = - 2"
  by (rule ceiling_unique, simp, simp) (rule floor_unique, simp, simp)

lemma undated_primary: "read_sql (seasonality_query 2) undated_conn = Inr []"
  by (simp add: read_sql_def undated_conn_def seasonality_query_def top_produtos_by_sum_def
      sql_limit_def undated_sales_def group_by_def)

lemma undated_secondary: "read_sql (seasonality_alt_query 2) undated_conn = Inr undated_alt"
  by (simp add: read_sql_def undated_conn_def seasonality_alt_query_def
      top_produtos_by_count_def sql_limit_def undated_sales_def group_by_def where_named_def
      product_name_def order_by_desc_def desc_nulls_last_def alt_row_of_def undated_alt_def)

lemma undated_add_mes:
  "add_mes undated_alt =
     Inr [\<lparr>produto_a = ''areia'', vendaId_a = Some 3, quantidade_a = Some 5,
           mes_num = 4, mes_a = ''2024-04''\<rparr>,
          \<lparr>produto_a = ''areia'', vendaId_a = Some 6, quantidade_a = Some 7,
           mes_num = 7, mes_a = ''2024-07''\<rparr>,
          \<lparr>produto_a = ''brita'', vendaId_a = Some 12, quantidade_a = Some 2,
           mes_num = 1, mes_a = ''2024-01''\<rparr>]"
  by (simp add: add_mes_def undated_alt_def max_venda_of_def mes_num_cell_def mes_num_of_def
      astype_int_def pad2_small mes_row_of_def alt_row.defs mes_row.defs)

lemma undated_seasonality:
  "get_seasonality_data 2 (Some undated_conn) =
     [\<lparr>produto_s = ''areia'', mes = ''2024-04'', quantidade = Some 5\<rparr>,
      \<lparr>produto_s = ''areia'', mes = ''2024-07'', quantidade = Some 7\<rparr>,
      \<lparr>produto_s = ''brita'', mes = ''2024-01'', quantidade = Some 2\<rparr>]"
  by (simp add: get_seasonality_data_def get_seasonality_data_try_def undated_primary
      undated_secondary seasonality_fallback_def undated_add_mes groupby_sum_def group_by_def
      less_eq_char_def less_char_def)
     (simp add: undated_alt_def)

lemma signed_add_mes:
  "add_mes signed_alt =
     Inr [\<lparr>produto_a = ''areia'', vendaId_a = Some (- 1), quantidade_a = Some 5,
           mes_num = 12, mes_a = ''2024-12''\<rparr>,
          \<lparr>produto_a = ''areia'', vendaId_a = Some 10, quantidade_a = Some 7,
           mes_num = 1, mes_a = ''2024-01''\<rparr>]"
  by (simp add: add_mes_def signed_alt_def max_venda_of_def mes_num_cell_def mes_num_of_def
      astype_int_def minus_six_fifths pad2_small mes_row_of_def alt_row.defs mes_row.defs)

lemma signed_bucket_spec: "bucket_spec (- 1) 10 = 11"
  by (simp add: bucket_spec_def minus_six_fifths)

text \<open>
  C6, as the code has it: when the first seasonality query has no row and the fallback
  computes its columns, every record has a sale id, the largest sale id is not zero, and
  the record's bucket is its sale id divided by the largest, times 12, with the fraction
  dropped (rounded toward zero), modulo 12, plus 1; this is the bucket of the
  specification, with a floor, whenever the quotient is not negative. The bucket lies
  between 1 and 12, the month key is \<^verbatim>\<open>2024-\<close> and the two-digit bucket, records
  with the same sale id get the same bucket and month key, and the columns are computed
  whenever every record has a sale id and the largest is not zero. Every row that
  \<^verbatim>\<open>get_seasonality_data\<close> then returns has a month key of 2024.
\<close>

theorem seasonality_fallback_buckets:
  "(add_mes df = Inr rows \<and> r \<in> set rows \<longrightarrow>
      (\<exists>v m. vendaId_a r = Some v \<and> max_venda_of df = Some m \<and> m \<noteq> 0
         \<and> mes_num r = astype_int (of_int v / of_int m * 12) mod 12 + 1
         \<and> (0 \<le> (of_int v / of_int m :: rat) \<longrightarrow> mes_num r = bucket_spec v m)
         \<and> 1 \<le> mes_num r \<and> mes_num r \<le> 12
         \<and> mes_a r = ''2024-'' @ pad2 (nat (mes_num r))))
   \<and> (add_mes df = Inr rows \<and> r \<in> set rows \<and> r' \<in> set rows
        \<and> vendaId_a r' = vendaId_a r \<longrightarrow> mes_num r' = mes_num r \<and> mes_a r' = mes_a r)
   \<and> ((\<forall>a\<in>set df. vendaId_a a \<noteq> None) \<and> max_venda_of df = Some mx \<and> mx \<noteq> 0 \<longrightarrow>
        (\<exists>out. add_mes df = Inr out \<and> map vendaId_a out = map vendaId_a df
           \<and> map produto_a out = map produto_a df))
   \<and> (read_sql (seasonality_query n) c = Inr [] \<and> s \<in> set (get_seasonality_data n (Some c))
        \<longrightarrow> (\<exists>k. 1 \<le> k \<and> k \<le> 12 \<and> mes s = ''2024-'' @ pad2 k))"
proof (intro conjI impI; (elim conjE)?)
  assume a: "add_mes df = Inr rows" "r \<in> set rows"
  obtain v m where vm: "vendaId_a r = Some v" "max_venda_of df = Some m" "m \<noteq> 0"
    "mes_num r = mes_num_of v m" "mes_a r = ''2024-'' @ pad2 (nat (mes_num r))"
    using add_mes_rows [OF a] by blast
  have "mes_num r = astype_int (of_int v / of_int m * 12) mod 12 + 1"
    using vm(4) by (simp add: mes_num_of_def)
  moreover have "0 \<le> (of_int v / of_int m :: rat) \<longrightarrow> mes_num r = bucket_spec v m"
    using vm(4) mes_num_of_floor by simp
  moreover have "1 \<le> mes_num r \<and> mes_num r \<le> 12"
    using vm(4) mes_num_of_range by simp
  ultimately show "\<exists>v m. vendaId_a r = Some v \<and> max_venda_of df = Some m \<and> m \<noteq> 0
         \<and> mes_num r = astype_int (of_int v / of_int m * 12) mod 12 + 1
         \<and> (0 \<le> (of_int v / of_int m :: rat) \<longrightarrow> mes_num r = bucket_spec v m)
         \<and> 1 \<le> mes_num r \<and> mes_num r \<le> 12
         \<and> mes_a r = ''2024-'' @ pad2 (nat (mes_num r))"
    using vm(1,2,3,5) by blast
next
  assume a: "add_mes df = Inr rows" "r \<in> set rows" and b: "r' \<in> set rows"
    and e: "vendaId_a r' = vendaId_a r"
  obtain v m where vm: "vendaId_a r = Some v" "max_venda_of df = Some m"
    "mes_num r = mes_num_of v m" "mes_a r = ''2024-'' @ pad2 (nat (mes_num r))"
    using add_mes_rows [OF a] by blast
  obtain v' m' where vm': "vendaId_a r' = Some v'" "max_venda_of df = Some m'"
    "mes_num r' = mes_num_of v' m'" "mes_a r' = ''2024-'' @ pad2 (nat (mes_num r'))"
    using add_mes_rows [OF a(1) b] by blast
  have "v' = v" "m' = m" using vm vm' e by simp_all
  then show "mes_num r' = mes_num r" "mes_a r' = mes_a r"
    using vm vm' by simp_all
next
  assume "\<forall>a\<in>set df. vendaId_a a \<noteq> None" "max_venda_of df = Some mx" "mx \<noteq> 0"
  then have "add_mes df = Inr (map (\<lambda>r. mes_row_of r (mes_num_of (the (vendaId_a r)) mx)) df)"
    by (rule add_mes_total)
  then show "\<exists>out. add_mes df = Inr out \<and> map vendaId_a out = map vendaId_a df
           \<and> map produto_a out = map produto_a df"
    by (simp add: comp_def mes_row_of_fields)
next
  assume "read_sql (seasonality_query n) c = Inr []" "s \<in> set (get_seasonality_data n (Some c))"
  then show "\<exists>k. 1 \<le> k \<and> k \<le> 12 \<and> mes s = ''2024-'' @ pad2 k"
    by (rule fallback_month_keys)
qed

theorem seasonality_fallback_buckets_witness:
  "add_mes undated_alt = Inr undated_mes
   \<and> undated_mes ! 0 \<in> set undated_mes
   \<and> vendaId_a (undated_mes ! 0) = Some 3 \<and> max_venda_of undated_alt = Some 12
   \<and> mes_num (undated_mes ! 0) = bucket_spec 3 12
   \<and> mes_num (undated_mes ! 0) = 4 \<and> mes_a (undated_mes ! 0) = ''2024-04''
   \<and> read_sql (seasonality_query 2) undated_conn = Inr []
   \<and> get_seasonality_data 2 (Some undated_conn) ! 0
        \<in> set (get_seasonality_data 2 (Some undated_conn))
   \<and> mes (get_seasonality_data 2 (Some undated_conn) ! 0) = ''2024-'' @ pad2 4"
proof -
  have 1: "add_mes undated_alt = Inr undated_mes"
    by (simp add: undated_add_mes undated_mes_def)
  have 2: "undated_mes ! 0 \<in> set undated_mes"
    by (simp add: undated_mes_def)
  have 3: "get_seasonality_data 2 (Some undated_conn) ! 0
        \<in> set (get_seasonality_data 2 (Some undated_conn))"
    by (simp add: undated_seasonality)
  have 4: "max_venda_of undated_alt = Some 12" "vendaId_a (undated_mes ! 0) = Some 3"
    "mes_num (undated_mes ! 0) = 4" "mes_a (undated_mes ! 0) = ''2024-04''"
    "bucket_spec 3 12 = 4"
    "mes (get_seasonality_data 2 (Some undated_conn) ! 0) = ''2024-'' @ pad2 4"
    by (simp_all add: max_venda_of_def undated_alt_def undated_mes_def bucket_spec_def
        undated_seasonality pad2_small)
  show ?thesis
    using seasonality_fallback_buckets
      [of undated_alt undated_mes "undated_mes ! 0" "undated_mes ! 0" 12 2 undated_conn
        "get_seasonality_data 2 (Some undated_conn) ! 0"]
      1 2 3 4 undated_primary
    by simp
qed

text \<open>
  The claim C6 as it was stated fails for a negative sale id: with the ids -1 and 10 the
  quotient -1.2 is cut to -1, which gives bucket 12, where the floor -2 of the
  specification gives bucket 11.
\<close>

theorem seasonality_fallback_negative_id:
  "add_mes signed_alt =
     Inr [\<lparr>produto_a = ''areia'', vendaId_a = Some (- 1), quantidade_a = Some 5,
           mes_num = 12, mes_a = ''2024-12''\<rparr>,
          \<lparr>produto_a = ''areia'', vendaId_a = Some 10, quantidade_a = Some 7,
           mes_num = 1, mes_a = ''2024-01''\<rparr>]
   \<and> max_venda_of signed_alt = Some 10
   \<and> bucket_spec (- 1) 10 = 11"
  by (simp add: signed_add_mes signed_bucket_spec) (simp add: max_venda_of_def signed_alt_def)

end
